theory Spec2Isabelle
  imports Main "HOL-Library.Word"
begin

section \<open>The shader cache of the GL renderer\<close>

text \<open>
  A shallow embedding of the shader part of \<^verbatim>\<open>src/clients/simple-color-management-image.c\<close>
  (from the second licence header on): \<^verbatim>\<open>gl_shader_texture_variant_to_string\<close>,
  \<^verbatim>\<open>dump_program_with_line_numbers\<close>, \<^verbatim>\<open>compile_shader\<close>,
  \<^verbatim>\<open>create_shader_description_string\<close>, \<^verbatim>\<open>create_shader_config_string\<close>,
  \<^verbatim>\<open>gl_shader_create\<close>, \<^verbatim>\<open>gl_shader_destroy\<close>,
  \<^verbatim>\<open>gl_shader_requirements_cmp\<close> and \<^verbatim>\<open>gl_shader_scope_new_subscription\<close>.

  Everything those functions call but do not define (the GL driver, the allocator, the
  clock, the two GLSL texts, floating-point formatting) is a field of the record
  \<open>externals\<close>: the functions are checked for every behaviour of their collaborators.
\<close>

subsection \<open>Requirements: the cache key\<close>

text \<open>
  \<^verbatim>\<open>enum gl_shader_texture_variant\<close> is declared in a header that is not part of the
  sources; its nine enumerators are the nine \<^verbatim>\<open>CASERET\<close> lines of
  \<^verbatim>\<open>gl_shader_texture_variant_to_string\<close>. The datatype has exactly these values, so the
  fall-through \<^verbatim>\<open>return "!?!?"\<close> (commented "never reached") has no input here.
\<close>

datatype gl_shader_texture_variant =
    SHADER_VARIANT_NONE
  | SHADER_VARIANT_RGBX
  | SHADER_VARIANT_RGBA
  | SHADER_VARIANT_Y_U_V
  | SHADER_VARIANT_Y_UV
  | SHADER_VARIANT_Y_XUXV
  | SHADER_VARIANT_XYUV
  | SHADER_VARIANT_SOLID
  | SHADER_VARIANT_EXTERNAL

text \<open>
  \<^verbatim>\<open>struct gl_shader_requirements\<close>: the two members the sources read,
  \<^verbatim>\<open>req->variant\<close> and \<^verbatim>\<open>req->green_tint\<close>.
\<close>

record gl_shader_requirements =
  variant :: gl_shader_texture_variant
  green_tint :: bool

fun gl_shader_texture_variant_to_string :: "gl_shader_texture_variant \<Rightarrow> string" where
  "gl_shader_texture_variant_to_string SHADER_VARIANT_NONE = ''SHADER_VARIANT_NONE''"
| "gl_shader_texture_variant_to_string SHADER_VARIANT_RGBX = ''SHADER_VARIANT_RGBX''"
| "gl_shader_texture_variant_to_string SHADER_VARIANT_RGBA = ''SHADER_VARIANT_RGBA''"
| "gl_shader_texture_variant_to_string SHADER_VARIANT_Y_U_V = ''SHADER_VARIANT_Y_U_V''"
| "gl_shader_texture_variant_to_string SHADER_VARIANT_Y_UV = ''SHADER_VARIANT_Y_UV''"
| "gl_shader_texture_variant_to_string SHADER_VARIANT_Y_XUXV = ''SHADER_VARIANT_Y_XUXV''"
| "gl_shader_texture_variant_to_string SHADER_VARIANT_XYUV = ''SHADER_VARIANT_XYUV''"
| "gl_shader_texture_variant_to_string SHADER_VARIANT_SOLID = ''SHADER_VARIANT_SOLID''"
| "gl_shader_texture_variant_to_string SHADER_VARIANT_EXTERNAL = ''SHADER_VARIANT_EXTERNAL''"

subsection \<open>Handles, timestamps and the collaborators\<close>

type_synonym GLuint = nat
type_synonym GLint = int
type_synonym shader_ptr = nat

datatype GLenum = GL_VERTEX_SHADER | GL_FRAGMENT_SHADER

record timespec =
  tv_sec :: int
  tv_nsec :: int

text \<open>
  What the functions get from outside themselves during one call:
  \<^item> \<open>zalloc\<close>: the result of \<^verbatim>\<open>zalloc(sizeof *shader)\<close>, \<open>None\<close> for \<^verbatim>\<open>NULL\<close>;
  \<^item> \<open>asprintf_ok\<close>: whether \<^verbatim>\<open>asprintf\<close> can allocate the given text;
  \<^item> \<open>open_memstream_ok\<close>, \<open>fclose_ok\<close>: the stream of
    \<^verbatim>\<open>dump_program_with_line_numbers\<close>;
  \<^item> \<open>vertex_shader_glsl\<close>, \<open>fragment_shader_glsl\<close>: the arrays
    \<^verbatim>\<open>vertex_shader[]\<close> and \<^verbatim>\<open>fragment_shader[]\<close> of the generated headers
    \<^verbatim>\<open>vertex-shader.h\<close> and \<^verbatim>\<open>fragment-shader.h\<close> (not in the sources);
  \<^item> \<open>compile_status\<close>, \<open>shader_info_log\<close>: what the driver answers to
    \<^verbatim>\<open>glGetShaderiv(s, GL_COMPILE_STATUS)\<close> and \<^verbatim>\<open>glGetShaderInfoLog\<close> for a shader
    of the given type and source strings;
  \<^item> \<open>link_status\<close>, \<open>program_info_log\<close>: the same for
    \<^verbatim>\<open>glGetProgramiv(p, GL_LINK_STATUS)\<close> and \<^verbatim>\<open>glGetProgramInfoLog\<close>;
  \<^item> \<open>uniform_location\<close>: \<^verbatim>\<open>glGetUniformLocation\<close> by uniform name;
  \<^item> \<open>presentation_clock\<close>: what \<^verbatim>\<open>weston_compositor_read_presentation_clock\<close> reads;
  \<^item> \<open>timespec_sub_to_msec\<close>: the helper of \<^verbatim>\<open>shared/timespec-util.h\<close> (not in the
    sources), its \<^verbatim>\<open>int64_t\<close> result as an integer;
  \<^item> \<open>printf_f1\<close>: the text \<^verbatim>\<open>printf("%.1f", msecs / 1000.0)\<close> writes for an
    \<^verbatim>\<open>int msecs\<close> (a floating-point division and conversion).
\<close>

record externals =
  zalloc :: "shader_ptr option"
  asprintf_ok :: "string \<Rightarrow> bool"
  open_memstream_ok :: bool
  fclose_ok :: bool
  vertex_shader_glsl :: string
  fragment_shader_glsl :: string
  compile_status :: "GLenum \<Rightarrow> string list \<Rightarrow> bool"
  shader_info_log :: "GLenum \<Rightarrow> string list \<Rightarrow> string"
  link_status :: bool
  program_info_log :: string
  uniform_location :: "string \<Rightarrow> GLint"
  presentation_clock :: timespec
  timespec_sub_to_msec :: "timespec \<Rightarrow> timespec \<Rightarrow> int"
  printf_f1 :: "int \<Rightarrow> string"

subsection \<open>Formatting\<close>

text \<open>\<^verbatim>\<open>asprintf\<close>: the formatted text, or a negative size when it cannot allocate.\<close>

definition asprintf :: "externals \<Rightarrow> string \<Rightarrow> string option" where
  "asprintf ex s = (if asprintf_ok ex s then Some s else None)"

definition create_shader_description_string ::
  "externals \<Rightarrow> gl_shader_requirements \<Rightarrow> string option" where
  "create_shader_description_string ex req =
     asprintf ex
       (gl_shader_texture_variant_to_string (variant req) @ '' '' @
        [if green_tint req then CHR ''+'' else CHR ''-''] @ ''green'')"

definition create_shader_config_string ::
  "externals \<Rightarrow> gl_shader_requirements \<Rightarrow> string option" where
  "create_shader_config_string ex req =
     asprintf ex
       (''#define DEF_GREEN_TINT '' @ (if green_tint req then ''true'' else ''false'') @
        ''\<newline>'' @
        ''#define DEF_VARIANT '' @ gl_shader_texture_variant_to_string (variant req) @
        ''\<newline>'')"

text \<open>Decimal digits of a natural number, as \<^verbatim>\<open>%u\<close> and \<^verbatim>\<open>%d\<close> print them.\<close>

function decimal :: "nat \<Rightarrow> string" where
  "decimal n =
     (if n < 10 then [''0123456789'' ! n]
      else decimal (n div 10) @ [''0123456789'' ! (n mod 10)])"
  by pat_completeness auto
termination
  by (relation "measure id") auto

declare decimal.simps [simp del]

definition printf_d :: "int \<Rightarrow> string" where
  "printf_d i = (if i < 0 then ''-'' @ decimal (nat (- i)) else decimal (nat i))"

text \<open>A field width of six: shorter texts are padded with spaces on the left.\<close>

definition width6 :: "string \<Rightarrow> string" where
  "width6 s = replicate (6 - length s) (CHR '' '') @ s"

definition printf_6u :: "GLuint \<Rightarrow> string" where
  "printf_6u n = width6 (decimal n)"

definition printf_6d :: "int \<Rightarrow> string" where
  "printf_6d i = width6 (printf_d i)"

text \<open>
  \<^verbatim>\<open>printf("%s", p)\<close>: glibc prints \<^verbatim>\<open>(null)\<close> for a null pointer, which is what
  the callers pass when \<^verbatim>\<open>create_shader_description_string\<close> could not allocate.
\<close>

definition printf_s :: "string option \<Rightarrow> string" where
  "printf_s p = (case p of None \<Rightarrow> ''(null)'' | Some s \<Rightarrow> s)"

subsection \<open>The GL context and the renderer\<close>

text \<open>The driver calls the functions make, as a mock driver would record them.\<close>

datatype gl_call =
    GlCreateShader GLenum GLuint
  | GlShaderSource GLuint "string list"
  | GlCompileShader GLuint
  | GlGetShaderiv GLuint
  | GlGetShaderInfoLog GLuint
  | GlDeleteShader GLuint
  | GlCreateProgram GLuint
  | GlAttachShader GLuint GLuint
  | GlBindAttribLocation GLuint nat string
  | GlLinkProgram GLuint
  | GlGetProgramiv GLuint
  | GlGetProgramInfoLog GLuint
  | GlGetUniformLocation GLuint string
  | GlDeleteProgram GLuint

text \<open>
  \<^verbatim>\<open>struct gl_shader\<close> (declared in a header that is not in the sources): the members
  the sources use, without the list link.
\<close>

record gl_shader =
  key :: gl_shader_requirements
  vertex_shader :: GLuint
  fragment_shader :: GLuint
  program :: GLuint
  proj_uniform :: GLint
  tex_uniforms :: "GLint list"
  alpha_uniform :: GLint
  color_uniform :: GLint
  last_used :: timespec

text \<open>
  The state the functions work on: the renderer's shader list and log scope, the log, and
  the GL context.
  \<^item> \<open>shader_list\<close>: \<^verbatim>\<open>gr->shader_list\<close>, first element first; each element is
    the address of a \<^verbatim>\<open>struct gl_shader\<close> with the object stored there.
  \<^item> \<open>shader_scope_enabled\<close>: \<^verbatim>\<open>weston_log_scope_is_enabled(gr->shader_scope)\<close>;
    \<open>shader_scope_out\<close>: what was printed to that scope.
  \<^item> \<open>weston_log_out\<close>: what was printed with \<^verbatim>\<open>weston_log\<close> and
    \<^verbatim>\<open>weston_log_continue\<close>.
  \<^item> \<open>gl_names\<close>: how many object names the context has given out. Shader and program
    objects share one name space, and a new object gets the next name, so no name is
    \<^verbatim>\<open>GL_NONE\<close> (zero).
  \<^item> \<open>gl_shaders\<close>, \<open>gl_programs\<close>: the shader and program objects created and not yet
    passed to \<^verbatim>\<open>glDeleteShader\<close> or \<^verbatim>\<open>glDeleteProgram\<close>.
  \<^item> \<open>gl_calls\<close>: every GL call made so far, oldest first.
\<close>

record gl_renderer =
  shader_list :: "(shader_ptr \<times> gl_shader) list"
  shader_scope_enabled :: bool
  shader_scope_out :: "string list"
  weston_log_out :: "string list"
  gl_names :: nat
  gl_shaders :: "GLuint list"
  gl_programs :: "GLuint list"
  gl_calls :: "gl_call list"

abbreviation GL_NONE :: GLuint where
  "GL_NONE \<equiv> 0"

definition weston_log :: "string \<Rightarrow> gl_renderer \<Rightarrow> gl_renderer" where
  "weston_log s gr = gr\<lparr>weston_log_out := weston_log_out gr @ [s]\<rparr>"

definition weston_log_scope_printf :: "string \<Rightarrow> gl_renderer \<Rightarrow> gl_renderer" where
  "weston_log_scope_printf s gr = gr\<lparr>shader_scope_out := shader_scope_out gr @ [s]\<rparr>"

definition gl_issue :: "gl_call \<Rightarrow> gl_renderer \<Rightarrow> gl_renderer" where
  "gl_issue c gr = gr\<lparr>gl_calls := gl_calls gr @ [c]\<rparr>"

definition glCreateShader :: "GLenum \<Rightarrow> gl_renderer \<Rightarrow> GLuint \<times> gl_renderer" where
  "glCreateShader type gr =
     (let s = Suc (gl_names gr)
      in (s, gl_issue (GlCreateShader type s)
               (gr\<lparr>gl_names := s, gl_shaders := s # gl_shaders gr\<rparr>)))"

definition glDeleteShader :: "GLuint \<Rightarrow> gl_renderer \<Rightarrow> gl_renderer" where
  "glDeleteShader s gr =
     gl_issue (GlDeleteShader s) (gr\<lparr>gl_shaders := remove1 s (gl_shaders gr)\<rparr>)"

definition glCreateProgram :: "gl_renderer \<Rightarrow> GLuint \<times> gl_renderer" where
  "glCreateProgram gr =
     (let p = Suc (gl_names gr)
      in (p, gl_issue (GlCreateProgram p)
               (gr\<lparr>gl_names := p, gl_programs := p # gl_programs gr\<rparr>)))"

definition glDeleteProgram :: "GLuint \<Rightarrow> gl_renderer \<Rightarrow> gl_renderer" where
  "glDeleteProgram p gr =
     gl_issue (GlDeleteProgram p) (gr\<lparr>gl_programs := remove1 p (gl_programs gr)\<rparr>)"

subsection \<open>\<^verbatim>\<open>dump_program_with_line_numbers\<close> and \<^verbatim>\<open>compile_shader\<close>\<close>

text \<open>
  One source string of the dump: the \<^verbatim>\<open>while ((delim = strchr(cur, '\n')))\<close> loop and
  the statements after it. The result is the line counter and the stream's text;
  \<^verbatim>\<open>new_line\<close> is false after every source string.
\<close>

function dump_source :: "string \<Rightarrow> int \<Rightarrow> bool \<Rightarrow> string \<Rightarrow> int \<times> string" where
  "dump_source cur line new_line out =
     (if CHR 0x0A \<in> set cur then
        dump_source (tl (dropWhile (\<lambda>c. c \<noteq> CHR 0x0A) cur))
          (if new_line then line + 1 else line) True
          ((if new_line then out @ printf_6d line @ '': '' else out) @
           takeWhile (\<lambda>c. c \<noteq> CHR 0x0A) cur @ ''\<newline>'')
      else
        (if new_line then line + 1 else line,
         (if new_line then out @ printf_6d line @ '': '' else out) @ cur))"
  by pat_completeness auto
termination
proof (relation "measure (\<lambda>(cur, line, new_line, out). length cur)")
  show "wf (measure (\<lambda>(cur, line, new_line, out). length cur))"
    by simp
next
  fix cur :: string and line :: int and new_line :: bool and out :: string
  assume "CHR 0x0A \<in> set cur"
  then have "dropWhile (\<lambda>c. c \<noteq> CHR 0x0A) cur \<noteq> []"
    by simp
  then have "length (tl (dropWhile (\<lambda>c. c \<noteq> CHR 0x0A) cur))
      < length (dropWhile (\<lambda>c. c \<noteq> CHR 0x0A) cur)"
    by (cases "dropWhile (\<lambda>c. c \<noteq> CHR 0x0A) cur") simp_all
  also have "\<dots> \<le> length cur"
    by (rule length_dropWhile_le)
  finally show "((tl (dropWhile (\<lambda>c. c \<noteq> CHR 0x0A) cur),
        if new_line then line + 1 else line, True,
        (if new_line then out @ printf_6d line @ '': '' else out) @
        takeWhile (\<lambda>c. c \<noteq> CHR 0x0A) cur @ ''\<newline>''),
       cur, line, new_line, out)
      \<in> measure (\<lambda>(cur, line, new_line, out). length cur)"
    by simp
qed

declare dump_source.simps [simp del]

text \<open>The \<^verbatim>\<open>for\<close> loop over the \<^verbatim>\<open>count\<close> source strings.\<close>

fun dump_sources :: "string list \<Rightarrow> int \<Rightarrow> bool \<Rightarrow> string \<Rightarrow> string" where
  "dump_sources [] line new_line out = out"
| "dump_sources (cur # sources) line new_line out =
     (case dump_source cur line new_line out of
        (line', out') \<Rightarrow> dump_sources sources line' False out')"

definition dump_program_with_line_numbers ::
  "externals \<Rightarrow> string list \<Rightarrow> gl_renderer \<Rightarrow> gl_renderer" where
  "dump_program_with_line_numbers ex sources gr =
     (if \<not> open_memstream_ok ex then gr
      else
        let dumpstr = dump_sources sources 1 True []
        in if fclose_ok ex then weston_log (dumpstr @ ''\<newline>'') gr else gr)"

text \<open>
  \<^verbatim>\<open>compile_shader(type, count, sources)\<close>, with \<^verbatim>\<open>count\<close> the length of the list.
  \<^verbatim>\<open>char msg[512]\<close> holds at most 511 characters of the driver's log. On failure the
  function returns \<^verbatim>\<open>GL_NONE\<close>; it makes no \<^verbatim>\<open>glDeleteShader\<close> call.
\<close>

definition compile_shader ::
  "externals \<Rightarrow> GLenum \<Rightarrow> string list \<Rightarrow> gl_renderer \<Rightarrow> GLuint \<times> gl_renderer" where
  "compile_shader ex type sources gr =
     (let (s, gr) = glCreateShader type gr;
          gr = gl_issue (GlShaderSource s sources) gr;
          gr = gl_issue (GlCompileShader s) gr;
          gr = gl_issue (GlGetShaderiv s) gr;
          status = compile_status ex type sources
      in if \<not> status then
           let gr = gl_issue (GlGetShaderInfoLog s) gr;
               msg = take 511 (shader_info_log ex type sources);
               gr = weston_log (''shader info: '' @ msg @ ''\<newline>'') gr;
               gr = weston_log ''shader source:\<newline>'' gr;
               gr = dump_program_with_line_numbers ex sources gr
           in (GL_NONE, gr)
         else (s, gr))"

subsection \<open>\<^verbatim>\<open>gl_shader_create\<close>\<close>

text \<open>
  The object after \<^verbatim>\<open>zalloc\<close> and \<^verbatim>\<open>shader->key = *requirements\<close>: every other
  member is zero.
\<close>

definition new_gl_shader :: "gl_shader_requirements \<Rightarrow> gl_shader" where
  "new_gl_shader requirements =
     \<lparr>key = requirements, vertex_shader = 0, fragment_shader = 0, program = 0,
      proj_uniform = 0, tex_uniforms = [0, 0, 0], alpha_uniform = 0, color_uniform = 0,
      last_used = \<lparr>tv_sec = 0, tv_nsec = 0\<rparr>\<rparr>"

text \<open>
  The three labels the function leaves through on failure. \<^verbatim>\<open>free(conf)\<close> and
  \<^verbatim>\<open>free(shader)\<close> release memory that nothing else refers to; the returned
  \<^verbatim>\<open>NULL\<close> is \<open>None\<close>.
\<close>

definition error_vertex :: "gl_renderer \<Rightarrow> shader_ptr option \<times> gl_renderer" where
  "error_vertex gr = (None, gr)"

definition error_fragment :: "gl_shader \<Rightarrow> gl_renderer \<Rightarrow> shader_ptr option \<times> gl_renderer" where
  "error_fragment shader gr = error_vertex (glDeleteShader (vertex_shader shader) gr)"

definition error_link :: "gl_shader \<Rightarrow> gl_renderer \<Rightarrow> shader_ptr option \<times> gl_renderer" where
  "error_link shader gr =
     error_fragment shader
       (glDeleteShader (fragment_shader shader) (glDeleteProgram (program shader) gr))"

text \<open>The six \<^verbatim>\<open>glGetUniformLocation\<close> calls and the members they fill.\<close>

definition get_uniform_locations ::
  "externals \<Rightarrow> gl_shader \<Rightarrow> gl_renderer \<Rightarrow> gl_shader \<times> gl_renderer" where
  "get_uniform_locations ex shader gr =
     (let gr = gl_issue (GlGetUniformLocation (program shader) ''proj'') gr;
          shader = shader\<lparr>proj_uniform := uniform_location ex ''proj''\<rparr>;
          gr = gl_issue (GlGetUniformLocation (program shader) ''tex'') gr;
          shader = shader\<lparr>tex_uniforms := (tex_uniforms shader)[0 := uniform_location ex ''tex'']\<rparr>;
          gr = gl_issue (GlGetUniformLocation (program shader) ''tex1'') gr;
          shader = shader\<lparr>tex_uniforms := (tex_uniforms shader)[1 := uniform_location ex ''tex1'']\<rparr>;
          gr = gl_issue (GlGetUniformLocation (program shader) ''tex2'') gr;
          shader = shader\<lparr>tex_uniforms := (tex_uniforms shader)[2 := uniform_location ex ''tex2'']\<rparr>;
          gr = gl_issue (GlGetUniformLocation (program shader) ''alpha'') gr;
          shader = shader\<lparr>alpha_uniform := uniform_location ex ''alpha''\<rparr>;
          gr = gl_issue (GlGetUniformLocation (program shader) ''unicolor'') gr;
          shader = shader\<lparr>color_uniform := uniform_location ex ''unicolor''\<rparr>
      in (shader, gr))"

text \<open>
  The part of \<^verbatim>\<open>gl_shader_create\<close> from \<^verbatim>\<open>glCreateProgram\<close> on: both stages
  have compiled.
\<close>

definition link_program ::
  "externals \<Rightarrow> shader_ptr \<Rightarrow> gl_shader \<Rightarrow> gl_renderer \<Rightarrow> shader_ptr option \<times> gl_renderer" where
  "link_program ex p shader gr =
     (let (prog, gr) = glCreateProgram gr;
          shader = shader\<lparr>program := prog\<rparr>;
          gr = gl_issue (GlAttachShader (program shader) (vertex_shader shader)) gr;
          gr = gl_issue (GlAttachShader (program shader) (fragment_shader shader)) gr;
          gr = gl_issue (GlBindAttribLocation (program shader) 0 ''position'') gr;
          gr = gl_issue (GlBindAttribLocation (program shader) 1 ''texcoord'') gr;
          gr = gl_issue (GlLinkProgram (program shader)) gr;
          gr = gl_issue (GlGetProgramiv (program shader)) gr
      in if \<not> link_status ex then
           let gr = gl_issue (GlGetProgramInfoLog (program shader)) gr;
               msg = take 511 (program_info_log ex);
               gr = weston_log (''link info: '' @ msg @ ''\<newline>'') gr
           in error_link shader gr
         else
           let gr = glDeleteShader (vertex_shader shader) gr;
               gr = glDeleteShader (fragment_shader shader) gr;
               (shader, gr) = get_uniform_locations ex shader gr;
               gr = gr\<lparr>shader_list := (p, shader) # shader_list gr\<rparr>
           in (Some p, gr))"

definition gl_shader_create ::
  "externals \<Rightarrow> gl_shader_requirements \<Rightarrow> gl_renderer \<Rightarrow> shader_ptr option \<times> gl_renderer" where
  "gl_shader_create ex requirements gr =
     (let verbose = shader_scope_enabled gr
      in case zalloc ex of
           None \<Rightarrow> error_vertex (weston_log ''could not create shader\<newline>'' gr)
         | Some p \<Rightarrow>
             let shader = new_gl_shader requirements;
                 gr = (if verbose then
                         let desc = create_shader_description_string ex requirements
                         in weston_log_scope_printf
                              (''Compiling shader program for: '' @ printf_s desc @ ''\<newline>'') gr
                       else gr);
                 (vs, gr) = compile_shader ex GL_VERTEX_SHADER [vertex_shader_glsl ex] gr;
                 shader = shader\<lparr>vertex_shader := vs\<rparr>
             in if vertex_shader shader = GL_NONE then error_vertex gr
                else
                  (case create_shader_config_string ex (key shader) of
                     None \<Rightarrow> error_fragment shader gr
                   | Some conf \<Rightarrow>
                       let (fs, gr) = compile_shader ex GL_FRAGMENT_SHADER
                                        [''#version 100\<newline>'', conf, fragment_shader_glsl ex] gr;
                           shader = shader\<lparr>fragment_shader := fs\<rparr>
                       in if fragment_shader shader = GL_NONE then error_fragment shader gr
                          else link_program ex p shader gr))"

subsection \<open>\<^verbatim>\<open>gl_shader_destroy\<close> and \<^verbatim>\<open>gl_shader_requirements_cmp\<close>\<close>

text \<open>
  \<^verbatim>\<open>gl_shader_destroy(gr, shader)\<close> for a pointer to an element of the list. A pointer
  that is not in the list has no defined behaviour in C; the result is \<open>None\<close> then.
  \<^verbatim>\<open>wl_list_remove\<close> unlinks that one element.
\<close>

definition gl_shader_destroy ::
  "externals \<Rightarrow> shader_ptr \<Rightarrow> gl_renderer \<Rightarrow> gl_renderer option" where
  "gl_shader_destroy ex p gr =
     (case map_of (shader_list gr) p of
        None \<Rightarrow> None
      | Some shader \<Rightarrow>
          let gr = (if shader_scope_enabled gr then
                      let desc = create_shader_description_string ex (key shader)
                      in weston_log_scope_printf
                           (''Deleting shader program for: '' @ printf_s desc @ ''\<newline>'') gr
                    else gr);
              gr = glDeleteProgram (program shader) gr;
              gr = gr\<lparr>shader_list := remove1 (p, shader) (shader_list gr)\<rparr>
          in Some gr)"

text \<open>
  \<^verbatim>\<open>memcmp(a, b, n)\<close> on two objects given by their bytes at each offset: zero when the
  first \<open>n\<close> bytes agree, else the difference of the first two bytes that differ, read
  as \<^verbatim>\<open>unsigned char\<close> (C fixes only the sign of a result that is not zero).
  \<open>memcmp_from\<close> is the comparison from offset \<open>i\<close> on.
\<close>

type_synonym byte = "8 word"

fun memcmp_from :: "(nat \<Rightarrow> byte) \<Rightarrow> (nat \<Rightarrow> byte) \<Rightarrow> nat \<Rightarrow> nat \<Rightarrow> int" where
  "memcmp_from a b i 0 = 0"
| "memcmp_from a b i (Suc n) =
     (if a i = b i then memcmp_from a b (Suc i) n else int (unat (a i)) - int (unat (b i)))"

definition memcmp :: "(nat \<Rightarrow> byte) \<Rightarrow> (nat \<Rightarrow> byte) \<Rightarrow> nat \<Rightarrow> int" where
  "memcmp a b n = memcmp_from a b 0 n"

text \<open>
  The declaration of \<^verbatim>\<open>struct gl_shader_requirements\<close> is not in the sources, so its
  size and the bytes of an object holding given member values are parameters:
  \<open>sizeof_requirements\<close> is \<^verbatim>\<open>sizeof(struct gl_shader_requirements)\<close> and
  \<open>object_bytes r i\<close> is the byte at offset \<open>i\<close> of an object whose members are \<open>r\<close>.
\<close>

record requirements_layout =
  sizeof_requirements :: nat
  object_bytes :: "gl_shader_requirements \<Rightarrow> nat \<Rightarrow> byte"

definition gl_shader_requirements_cmp ::
  "requirements_layout \<Rightarrow> gl_shader_requirements \<Rightarrow> gl_shader_requirements \<Rightarrow> int" where
  "gl_shader_requirements_cmp layout a b =
     memcmp (object_bytes layout a) (object_bytes layout b) (sizeof_requirements layout)"

text \<open>
  A layout without indeterminate bits: the bytes of an object are given by its member
  values alone (this is what \<open>object_bytes\<close> being a function says), and two objects
  with the same \<open>sizeof_requirements\<close> bytes have the same member values.
\<close>

definition layout_exact :: "requirements_layout \<Rightarrow> bool" where
  "layout_exact layout =
     (\<forall>a b. (\<forall>i < sizeof_requirements layout. object_bytes layout a i = object_bytes layout b i)
        \<longrightarrow> a = b)"

subsection \<open>\<^verbatim>\<open>gl_shader_scope_new_subscription\<close>: the dump\<close>

text \<open>
  \<^verbatim>\<open>int msecs = timespec_sub_to_msec(...)\<close> stores an \<^verbatim>\<open>int64_t\<close> in an
  \<^verbatim>\<open>int\<close>: the value is reduced to 32 bits, two's complement.
\<close>

definition int64_to_int :: "int \<Rightarrow> int" where
  "int64_to_int x = sint (word_of_int x :: 32 word)"

definition bar :: string where
  "bar = replicate 77 (CHR ''-'')"

text \<open>
  The body of \<^verbatim>\<open>wl_list_for_each(shader, &gr->shader_list, link)\<close>: one call of
  \<^verbatim>\<open>weston_log_subscription_printf\<close> for each element, in list order. \<open>subs\<close> is
  what has been printed to the subscription, one text for each call.
\<close>

definition dump_line :: "externals \<Rightarrow> timespec \<Rightarrow> gl_shader \<Rightarrow> string" where
  "dump_line ex now shader =
     (let msecs = int64_to_int (timespec_sub_to_msec ex now (last_used shader));
          desc = create_shader_description_string ex (key shader)
      in printf_6u (program shader) @ '': ('' @ printf_f1 ex msecs @ '') '' @
         printf_s desc @ ''\<newline>'')"

fun dump_shaders ::
  "externals \<Rightarrow> timespec \<Rightarrow> (shader_ptr \<times> gl_shader) list \<Rightarrow> int \<Rightarrow> string list
     \<Rightarrow> int \<times> string list" where
  "dump_shaders ex now [] count subs = (count, subs)"
| "dump_shaders ex now ((p, shader) # rest) count subs =
     dump_shaders ex now rest (count + 1) (subs @ [dump_line ex now shader])"

definition gl_shader_scope_new_subscription ::
  "externals \<Rightarrow> gl_renderer \<Rightarrow> string list \<times> gl_renderer" where
  "gl_shader_scope_new_subscription ex gr =
     (let now = presentation_clock ex;
          subs = [''Vertex shader body:\<newline>'' @ bar @ ''\<newline>'' @
                  vertex_shader_glsl ex @ ''\<newline>'' @
                  ''Fragment shader body:\<newline>'' @ bar @ ''\<newline>'' @
                  fragment_shader_glsl ex @ ''\<newline>'' @ bar @ ''\<newline>''];
          subs = subs @ [''Cached GLSL programs:\<newline>'' @
                         ''    id: (used secs ago) description +/-flags\<newline>''];
          (count, subs) = dump_shaders ex now (shader_list gr) 0 subs;
          subs = subs @ [''Total: '' @ printf_d count @ '' programs.\<newline>'']
      in (subs, gr))"

subsection \<open>The cache operations around \<^verbatim>\<open>gl_shader_create\<close>\<close>

text \<open>
  Modelled from the spec: \<^verbatim>\<open>get_or_create\<close>, the lookup that calls
  \<^verbatim>\<open>gl_shader_create\<close>, is not in the sources. The spec (4.1): it "performs an
  exact-match lookup by structural equality against all cached entries. On hit, returns
  the existing CompiledProgram unchanged (no recompilation, no uniform re-resolution). On
  miss, [...] inserts the new entry into the store, and returns it." The miss is
  \<open>gl_shader_create\<close> above; the result is the entry's address. Structural equality
  is equality of the two members, which is what \<open>gl_shader_requirements_cmp\<close> decides
  for a layout without indeterminate bits.
\<close>

definition get_or_create ::
  "externals \<Rightarrow> gl_shader_requirements \<Rightarrow> gl_renderer \<Rightarrow> shader_ptr option \<times> gl_renderer" where
  "get_or_create ex requirements gr =
     (case find (\<lambda>(p, shader). key shader = requirements) (shader_list gr) of
        Some (p, shader) \<Rightarrow> (Some p, gr)
      | None \<Rightarrow> gl_shader_create ex requirements gr)"

text \<open>
  Modelled from the spec: \<^verbatim>\<open>destroy_all\<close>, the caller of \<^verbatim>\<open>gl_shader_destroy\<close>,
  is not in the sources. The spec (4.1): it "releases every cached program's driver
  resources and empties the store". Here it passes each element of the list, first to
  last, to \<open>gl_shader_destroy\<close> above.
\<close>

fun destroy_each :: "externals \<Rightarrow> shader_ptr list \<Rightarrow> gl_renderer \<Rightarrow> gl_renderer option" where
  "destroy_each ex [] gr = Some gr"
| "destroy_each ex (p # ps) gr =
     (case gl_shader_destroy ex p gr of
        None \<Rightarrow> None
      | Some gr' \<Rightarrow> destroy_each ex ps gr')"

definition destroy_all :: "externals \<Rightarrow> gl_renderer \<Rightarrow> gl_renderer option" where
  "destroy_all ex gr = destroy_each ex (map fst (shader_list gr)) gr"

text \<open>
  The three operations of the spec's cache, and a sequence of them, each with the
  behaviour of the collaborators during that operation. \<open>dump\<close> is
  \<open>gl_shader_scope_new_subscription\<close>.
\<close>

datatype cache_op = Get_or_create gl_shader_requirements | Destroy_all | Dump

fun cache_step :: "externals \<times> cache_op \<Rightarrow> gl_renderer \<Rightarrow> gl_renderer option" where
  "cache_step (ex, Get_or_create requirements) gr = Some (snd (get_or_create ex requirements gr))"
| "cache_step (ex, Destroy_all) gr = destroy_all ex gr"
| "cache_step (ex, Dump) gr = Some (snd (gl_shader_scope_new_subscription ex gr))"

fun cache_run :: "(externals \<times> cache_op) list \<Rightarrow> gl_renderer \<Rightarrow> gl_renderer option" where
  "cache_run [] gr = Some gr"
| "cache_run (op # ops) gr =
     (case cache_step op gr of
        None \<Rightarrow> None
      | Some gr' \<Rightarrow> cache_run ops gr')"

text \<open>The keys of the cached entries, and the calls made since an earlier state.\<close>

definition cached_keys :: "gl_renderer \<Rightarrow> gl_shader_requirements list" where
  "cached_keys gr = map (\<lambda>(p, shader). key shader) (shader_list gr)"

definition calls_since :: "gl_renderer \<Rightarrow> gl_renderer \<Rightarrow> gl_call list" where
  "calls_since gr gr' = drop (length (gl_calls gr)) (gl_calls gr')"

definition log_since :: "gl_renderer \<Rightarrow> gl_renderer \<Rightarrow> string list" where
  "log_since gr gr' = drop (length (weston_log_out gr)) (weston_log_out gr')"

subsection \<open>Concrete collaborators and states\<close>

text \<open>
  A driver that compiles and links everything, an allocator that always succeeds, a
  clock at ten seconds, and a stand-in for the floating-point conversion that cuts the
  milliseconds to tenths of a second.
\<close>

definition mock_externals :: externals where
  "mock_externals =
     \<lparr>zalloc = Some 4096,
      asprintf_ok = (\<lambda>s. True),
      open_memstream_ok = True,
      fclose_ok = True,
      vertex_shader_glsl = ''void main() { }\<newline>'',
      fragment_shader_glsl = ''void main() { gl_FragColor = vec4(1.0); }\<newline>'',
      compile_status = (\<lambda>type sources. True),
      shader_info_log = (\<lambda>type sources. ''ERROR: 0:1: syntax error''),
      link_status = True,
      program_info_log = ''error: varyings do not match'',
      uniform_location = (\<lambda>name. int (length name)),
      presentation_clock = \<lparr>tv_sec = 10, tv_nsec = 0\<rparr>,
      timespec_sub_to_msec =
        (\<lambda>a b. (tv_sec a - tv_sec b) * 1000 + (tv_nsec a - tv_nsec b) div 1000000),
      printf_f1 = (\<lambda>msecs. printf_d (msecs div 1000) @ ''.'' @ printf_d (msecs mod 1000 div 100))\<rparr>"

definition vertex_fails :: externals where
  "vertex_fails = mock_externals\<lparr>compile_status := (\<lambda>type sources. type \<noteq> GL_VERTEX_SHADER)\<rparr>"

definition fragment_fails :: externals where
  "fragment_fails = mock_externals\<lparr>compile_status := (\<lambda>type sources. type \<noteq> GL_FRAGMENT_SHADER)\<rparr>"

definition link_fails :: externals where
  "link_fails = mock_externals\<lparr>link_status := False\<rparr>"

definition empty_renderer :: gl_renderer where
  "empty_renderer =
     \<lparr>shader_list = [], shader_scope_enabled = False, shader_scope_out = [],
      weston_log_out = [], gl_names = 0, gl_shaders = [], gl_programs = [], gl_calls = []\<rparr>"

definition rgba_requirements :: gl_shader_requirements where
  "rgba_requirements = \<lparr>variant = SHADER_VARIANT_RGBA, green_tint = False\<rparr>"

definition solid_requirements :: gl_shader_requirements where
  "solid_requirements = \<lparr>variant = SHADER_VARIANT_SOLID, green_tint = True\<rparr>"

text \<open>
  A layout for \<open>gl_shader_requirements_cmp\<close>: four bytes, the first holding the
  variant's position in the enumeration in its low four bits and the tint flag in the
  fifth, the others zero.
\<close>

fun variant_index :: "gl_shader_texture_variant \<Rightarrow> nat" where
  "variant_index SHADER_VARIANT_NONE = 0"
| "variant_index SHADER_VARIANT_RGBX = 1"
| "variant_index SHADER_VARIANT_RGBA = 2"
| "variant_index SHADER_VARIANT_Y_U_V = 3"
| "variant_index SHADER_VARIANT_Y_UV = 4"
| "variant_index SHADER_VARIANT_Y_XUXV = 5"
| "variant_index SHADER_VARIANT_XYUV = 6"
| "variant_index SHADER_VARIANT_SOLID = 7"
| "variant_index SHADER_VARIANT_EXTERNAL = 8"

definition packed_layout :: requirements_layout where
  "packed_layout =
     \<lparr>sizeof_requirements = 4,
      object_bytes = (\<lambda>r i. if i = 0
                            then of_nat (variant_index (variant r) + (if green_tint r then 16 else 0))
                            else 0)\<rparr>"

subsection \<open>Names for the calls and log lines of one attempt\<close>

text \<open>
  The theorems below speak about what one call of \<open>gl_shader_create\<close> adds to the
  list of GL calls and to the log. \<open>n\<close> is \<open>gl_names\<close> before the call, so the vertex
  stage gets the name \<open>n + 1\<close>, the fragment stage \<open>n + 2\<close> and the program \<open>n + 3\<close>.
\<close>

definition dump_log :: "externals \<Rightarrow> string list \<Rightarrow> string list" where
  "dump_log ex sources =
     (if open_memstream_ok ex \<and> fclose_ok ex
      then [dump_sources sources 1 True [] @ ''\<newline>''] else [])"

definition announce :: "externals \<Rightarrow> gl_shader_requirements \<Rightarrow> gl_renderer \<Rightarrow> string list" where
  "announce ex requirements gr =
     (if shader_scope_enabled gr then
        [''Compiling shader program for: '' @
         printf_s (create_shader_description_string ex requirements) @ ''\<newline>'']
      else [])"

definition fragment_sources :: "externals \<Rightarrow> string \<Rightarrow> string list" where
  "fragment_sources ex conf = [''#version 100\<newline>'', conf, fragment_shader_glsl ex]"

definition vertex_calls :: "externals \<Rightarrow> GLuint \<Rightarrow> gl_call list" where
  "vertex_calls ex n =
     [GlCreateShader GL_VERTEX_SHADER (Suc n), GlShaderSource (Suc n) [vertex_shader_glsl ex],
      GlCompileShader (Suc n), GlGetShaderiv (Suc n)]"

definition fragment_calls :: "externals \<Rightarrow> string \<Rightarrow> GLuint \<Rightarrow> gl_call list" where
  "fragment_calls ex conf n =
     [GlCreateShader GL_FRAGMENT_SHADER (Suc (Suc n)),
      GlShaderSource (Suc (Suc n)) [''#version 100\<newline>'', conf, fragment_shader_glsl ex],
      GlCompileShader (Suc (Suc n)), GlGetShaderiv (Suc (Suc n))]"

definition program_calls :: "GLuint \<Rightarrow> gl_call list" where
  "program_calls n =
     [GlCreateProgram (Suc (Suc (Suc n))),
      GlAttachShader (Suc (Suc (Suc n))) (Suc n),
      GlAttachShader (Suc (Suc (Suc n))) (Suc (Suc n)),
      GlBindAttribLocation (Suc (Suc (Suc n))) 0 ''position'',
      GlBindAttribLocation (Suc (Suc (Suc n))) 1 ''texcoord'',
      GlLinkProgram (Suc (Suc (Suc n))), GlGetProgramiv (Suc (Suc (Suc n)))]"

definition uniform_calls :: "GLuint \<Rightarrow> gl_call list" where
  "uniform_calls n =
     [GlGetUniformLocation (Suc (Suc (Suc n))) ''proj'',
      GlGetUniformLocation (Suc (Suc (Suc n))) ''tex'',
      GlGetUniformLocation (Suc (Suc (Suc n))) ''tex1'',
      GlGetUniformLocation (Suc (Suc (Suc n))) ''tex2'',
      GlGetUniformLocation (Suc (Suc (Suc n))) ''alpha'',
      GlGetUniformLocation (Suc (Suc (Suc n))) ''unicolor'']"

definition created_shader :: "externals \<Rightarrow> gl_shader_requirements \<Rightarrow> GLuint \<Rightarrow> gl_shader" where
  "created_shader ex requirements n =
     \<lparr>key = requirements, vertex_shader = Suc n, fragment_shader = Suc (Suc n),
      program = Suc (Suc (Suc n)),
      proj_uniform = uniform_location ex ''proj'',
      tex_uniforms = [uniform_location ex ''tex'', uniform_location ex ''tex1'',
                      uniform_location ex ''tex2''],
      alpha_uniform = uniform_location ex ''alpha'',
      color_uniform = uniform_location ex ''unicolor'',
      last_used = \<lparr>tv_sec = 0, tv_nsec = 0\<rparr>\<rparr>"

text \<open>
  A shader object that \<open>compile_shader\<close> returned to its caller, read off the calls: it
  was created, and its info log was not asked for (\<open>compile_shader\<close> asks for the log
  exactly when the compile status is false, and returns \<^verbatim>\<open>GL_NONE\<close> then).
\<close>

definition compiled_in :: "gl_call list \<Rightarrow> GLuint \<Rightarrow> bool" where
  "compiled_in calls s =
     ((\<exists>type. GlCreateShader type s \<in> set calls) \<and> GlGetShaderInfoLog s \<notin> set calls)"





text \<open>The cache after one successful \<open>gl_shader_create\<close>, and a driver with a long log.\<close>

definition rgba_cached :: gl_renderer where
  "rgba_cached = snd (gl_shader_create mock_externals rgba_requirements empty_renderer)"

definition long_log_fails :: externals where
  "long_log_fails = vertex_fails\<lparr>shader_info_log := (\<lambda>type sources. replicate 600 (CHR ''x''))\<rparr>"

text \<open>A cache with two entries: the tinted solid-colour program first, then the RGBA one.\<close>

definition two_cached :: gl_renderer where
  "two_cached =
     snd (gl_shader_create (mock_externals\<lparr>zalloc := Some 8192\<rparr>) solid_requirements rgba_cached)"

text \<open>
  Every operation on the shader list: the three functions of the source that take the
  renderer (\<open>gl_shader_create\<close>, \<open>gl_shader_destroy\<close> and the dump) and the two
  operations modelled from the spec. \<open>unlinks\<close> marks the two that call
  \<^verbatim>\<open>wl_list_remove\<close>.
\<close>

datatype shader_op =
    Op_get_or_create gl_shader_requirements
  | Op_gl_shader_create gl_shader_requirements
  | Op_gl_shader_destroy shader_ptr
  | Op_destroy_all
  | Op_dump

fun shader_step :: "externals \<times> shader_op \<Rightarrow> gl_renderer \<Rightarrow> gl_renderer option" where
  "shader_step (ex, Op_get_or_create requirements) gr =
     Some (snd (get_or_create ex requirements gr))"
| "shader_step (ex, Op_gl_shader_create requirements) gr =
     Some (snd (gl_shader_create ex requirements gr))"
| "shader_step (ex, Op_gl_shader_destroy p) gr = gl_shader_destroy ex p gr"
| "shader_step (ex, Op_destroy_all) gr = destroy_all ex gr"
| "shader_step (ex, Op_dump) gr = Some (snd (gl_shader_scope_new_subscription ex gr))"

fun shader_run :: "(externals \<times> shader_op) list \<Rightarrow> gl_renderer \<Rightarrow> gl_renderer option" where
  "shader_run [] gr = Some gr"
| "shader_run (op # ops) gr =
     (case shader_step op gr of
        None \<Rightarrow> None
      | Some gr' \<Rightarrow> shader_run ops gr')"

fun unlinks :: "shader_op \<Rightarrow> bool" where
  "unlinks (Op_gl_shader_destroy p) = True"
| "unlinks Op_destroy_all = True"
| "unlinks op = False"

text \<open>A clock 2^32 milliseconds (49.7 days) later than that of \<open>mock_externals\<close>.\<close>

definition late_clock :: timespec where
  "late_clock = \<lparr>tv_sec = 4294977, tv_nsec = 296000000\<rparr>"

section \<open>Lemmas\<close>

subsection \<open>Records and strings\<close>

lemma requirements_eq_iff:
  "(a = b) = (variant a = variant b \<and> green_tint a = green_tint b)"
  for a b :: gl_shader_requirements
  by (cases a; cases b; simp)

lemma variant_to_string_inj:
  "gl_shader_texture_variant_to_string v = gl_shader_texture_variant_to_string w \<Longrightarrow> v = w"
  by (cases v; cases w; simp)

lemma description_text_inj:
  assumes "gl_shader_texture_variant_to_string v @ '' '' @ [c] @ ''green'' =
           gl_shader_texture_variant_to_string w @ '' '' @ [d] @ ''green''"
  shows "v = w \<and> c = d"
proof -
  have len: "length ('' '' @ [c] @ ''green'') = length ('' '' @ [d] @ ''green'')"
    by simp
  from append_eq_append_conv[OF disjI2[OF len]] assms
  have "gl_shader_texture_variant_to_string v = gl_shader_texture_variant_to_string w
      \<and> '' '' @ [c] @ ''green'' = '' '' @ [d] @ ''green''"
    by blast
  then show ?thesis
    by (simp add: variant_to_string_inj)
qed

lemma univ_variant:
  "(UNIV :: gl_shader_texture_variant set) =
     {SHADER_VARIANT_NONE, SHADER_VARIANT_RGBX, SHADER_VARIANT_RGBA, SHADER_VARIANT_Y_U_V,
      SHADER_VARIANT_Y_UV, SHADER_VARIANT_Y_XUXV, SHADER_VARIANT_XYUV, SHADER_VARIANT_SOLID,
      SHADER_VARIANT_EXTERNAL}"
  by (auto intro: gl_shader_texture_variant.exhaust)

lemma univ_requirements:
  "(UNIV :: gl_shader_requirements set) =
     (\<lambda>(v, g). \<lparr>variant = v, green_tint = g\<rparr>) ` (UNIV \<times> UNIV)"
proof -
  have "r \<in> (\<lambda>(v, g). \<lparr>variant = v, green_tint = g\<rparr>) ` (UNIV \<times> UNIV)"
    for r :: gl_shader_requirements
    by (cases r) auto
  then show ?thesis by blast
qed

lemma card_requirements: "card (UNIV :: gl_shader_requirements set) = 18"
proof -
  have "inj_on (\<lambda>(v, g). \<lparr>variant = v, green_tint = g\<rparr>)
      (UNIV :: (gl_shader_texture_variant \<times> bool) set)"
    by (auto simp: inj_on_def)
  then have "card (UNIV :: gl_shader_requirements set) =
      card (UNIV :: (gl_shader_texture_variant \<times> bool) set)"
    unfolding univ_requirements by (simp add: card_image)
  also have "\<dots> = 18"
    by (simp add: card_cartesian_product univ_variant del: UNIV_Times_UNIV)
  finally show ?thesis .
qed

subsection \<open>\<^verbatim>\<open>gl_shader_requirements_cmp\<close>\<close>

lemma memcmp_from_zero_iff:
  "(memcmp_from a b i n = 0) = (\<forall>j < n. a (i + j) = b (i + j))"
proof (induction n arbitrary: i)
  case 0
  show ?case by simp
next
  case (Suc n)
  show ?case
  proof (cases "a i = b i")
    case True
    have "(\<forall>j < Suc n. a (i + j) = b (i + j)) = (\<forall>j < n. a (Suc i + j) = b (Suc i + j))"
    proof
      assume h: "\<forall>j < Suc n. a (i + j) = b (i + j)"
      show "\<forall>j < n. a (Suc i + j) = b (Suc i + j)"
      proof (intro allI impI)
        fix j assume "j < n"
        then have "a (i + Suc j) = b (i + Suc j)" using h by blast
        then show "a (Suc i + j) = b (Suc i + j)" by simp
      qed
    next
      assume h: "\<forall>j < n. a (Suc i + j) = b (Suc i + j)"
      show "\<forall>j < Suc n. a (i + j) = b (i + j)"
      proof (intro allI impI)
        fix j assume "j < Suc n"
        show "a (i + j) = b (i + j)"
        proof (cases j)
          case 0
          then show ?thesis using True by simp
        next
          case (Suc k)
          then have "k < n" using \<open>j < Suc n\<close> by simp
          then have "a (Suc i + k) = b (Suc i + k)" using h by blast
          then show ?thesis using Suc by simp
        qed
      qed
    qed
    then show ?thesis using True Suc.IH[of "Suc i"] by simp
  next
    case False
    then have "uint (a i) \<noteq> uint (b i)" by (simp add: word_uint_eq_iff)
    then have "memcmp_from a b i (Suc n) \<noteq> 0" using False by simp
    moreover have "\<not> (\<forall>j < Suc n. a (i + j) = b (i + j))"
    proof
      assume "\<forall>j < Suc n. a (i + j) = b (i + j)"
      then have "a (i + 0) = b (i + 0)" by blast
      then show False using False by simp
    qed
    ultimately show ?thesis by simp
  qed
qed

lemma packed_byte_inj:
  "(of_nat (variant_index v + (if g then 16 else 0)) :: byte) =
     of_nat (variant_index w + (if h then 16 else 0)) \<Longrightarrow> v = w \<and> g = h"
  by (cases v; cases w; cases g; cases h; simp)

lemma packed_layout_exact: "layout_exact packed_layout"
  unfolding layout_exact_def
proof (intro allI impI)
  fix a b :: gl_shader_requirements
  assume h: "\<forall>i < sizeof_requirements packed_layout. object_bytes packed_layout a i = object_bytes packed_layout b i"
  have "0 < sizeof_requirements packed_layout"
    by (simp add: packed_layout_def)
  with h have "object_bytes packed_layout a 0 = object_bytes packed_layout b 0"
    by blast
  then have "variant a = variant b \<and> green_tint a = green_tint b"
    using packed_byte_inj[of "variant a" "green_tint a" "variant b" "green_tint b"]
    by (simp add: packed_layout_def)
  then show "a = b" by (simp add: requirements_eq_iff)
qed

subsection \<open>The outcomes of \<^verbatim>\<open>gl_shader_create\<close>\<close>

text \<open>
  The state after the call, for each of the six ways through the function: the entry
  cannot be allocated, the vertex stage does not compile, the configuration text cannot
  be allocated, the fragment stage does not compile, the program does not link, or the
  entry is created.
\<close>

lemma dump_program_eq:
  "dump_program_with_line_numbers ex sources gr =
     gr\<lparr>weston_log_out := weston_log_out gr @ dump_log ex sources\<rparr>"
  by (simp add: dump_program_with_line_numbers_def dump_log_def weston_log_def Let_def)

lemma compile_shader_ok:
  assumes "compile_status ex type sources"
  shows "compile_shader ex type sources gr =
     (Suc (gl_names gr),
      gr\<lparr>gl_names := Suc (gl_names gr),
         gl_shaders := Suc (gl_names gr) # gl_shaders gr,
         gl_calls := gl_calls gr @
           [GlCreateShader type (Suc (gl_names gr)), GlShaderSource (Suc (gl_names gr)) sources,
            GlCompileShader (Suc (gl_names gr)), GlGetShaderiv (Suc (gl_names gr))]\<rparr>)"
  using assms
  by (simp add: compile_shader_def glCreateShader_def gl_issue_def Let_def)

lemma compile_shader_failed:
  assumes "\<not> compile_status ex type sources"
  shows "compile_shader ex type sources gr =
     (GL_NONE,
      gr\<lparr>gl_names := Suc (gl_names gr),
         gl_shaders := Suc (gl_names gr) # gl_shaders gr,
         gl_calls := gl_calls gr @
           [GlCreateShader type (Suc (gl_names gr)), GlShaderSource (Suc (gl_names gr)) sources,
            GlCompileShader (Suc (gl_names gr)), GlGetShaderiv (Suc (gl_names gr)),
            GlGetShaderInfoLog (Suc (gl_names gr))],
         weston_log_out := weston_log_out gr @
           [''shader info: '' @ take 511 (shader_info_log ex type sources) @ ''\<newline>'',
            ''shader source:\<newline>''] @ dump_log ex sources\<rparr>)"
  using assms
  by (simp add: compile_shader_def glCreateShader_def gl_issue_def Let_def weston_log_def dump_program_eq)

lemma create_alloc_failed:
  assumes "zalloc ex = None"
  shows "gl_shader_create ex requirements gr =
     (None, gr\<lparr>weston_log_out := weston_log_out gr @ [''could not create shader\<newline>'']\<rparr>)"
  using assms by (simp add: gl_shader_create_def error_vertex_def weston_log_def)

lemma create_vertex_failed:
  assumes "zalloc ex = Some p"
    and "\<not> compile_status ex GL_VERTEX_SHADER [vertex_shader_glsl ex]"
  shows "gl_shader_create ex requirements gr =
     (None,
      gr\<lparr>shader_scope_out := shader_scope_out gr @ announce ex requirements gr,
         gl_names := Suc (gl_names gr),
         gl_shaders := Suc (gl_names gr) # gl_shaders gr,
         gl_calls := gl_calls gr @
           [GlCreateShader GL_VERTEX_SHADER (Suc (gl_names gr)),
            GlShaderSource (Suc (gl_names gr)) [vertex_shader_glsl ex],
            GlCompileShader (Suc (gl_names gr)), GlGetShaderiv (Suc (gl_names gr)),
            GlGetShaderInfoLog (Suc (gl_names gr))],
         weston_log_out := weston_log_out gr @
           [''shader info: '' @
              take 511 (shader_info_log ex GL_VERTEX_SHADER [vertex_shader_glsl ex]) @ ''\<newline>'',
            ''shader source:\<newline>''] @ dump_log ex [vertex_shader_glsl ex]\<rparr>)"
  using assms
  by (simp add: gl_shader_create_def error_vertex_def weston_log_scope_printf_def
      compile_shader_failed announce_def Let_def new_gl_shader_def)

lemma create_config_failed:
  assumes "zalloc ex = Some p"
    and "compile_status ex GL_VERTEX_SHADER [vertex_shader_glsl ex]"
    and "create_shader_config_string ex requirements = None"
  shows "gl_shader_create ex requirements gr =
     (None,
      gr\<lparr>shader_scope_out := shader_scope_out gr @ announce ex requirements gr,
         gl_names := Suc (gl_names gr),
         gl_shaders := gl_shaders gr,
         gl_calls := gl_calls gr @ vertex_calls ex (gl_names gr) @
           [GlDeleteShader (Suc (gl_names gr))]\<rparr>)"
  using assms
  by (simp add: gl_shader_create_def error_vertex_def error_fragment_def weston_log_scope_printf_def
      compile_shader_ok announce_def Let_def new_gl_shader_def glDeleteShader_def gl_issue_def
      vertex_calls_def)

lemma create_fragment_failed:
  assumes "zalloc ex = Some p"
    and "compile_status ex GL_VERTEX_SHADER [vertex_shader_glsl ex]"
    and "create_shader_config_string ex requirements = Some conf"
    and "\<not> compile_status ex GL_FRAGMENT_SHADER (fragment_sources ex conf)"
  shows "gl_shader_create ex requirements gr =
     (None,
      gr\<lparr>shader_scope_out := shader_scope_out gr @ announce ex requirements gr,
         gl_names := Suc (Suc (gl_names gr)),
         gl_shaders := Suc (Suc (gl_names gr)) # gl_shaders gr,
         gl_calls := gl_calls gr @ vertex_calls ex (gl_names gr) @
           fragment_calls ex conf (gl_names gr) @
           [GlGetShaderInfoLog (Suc (Suc (gl_names gr))), GlDeleteShader (Suc (gl_names gr))],
         weston_log_out := weston_log_out gr @
           [''shader info: '' @
              take 511 (shader_info_log ex GL_FRAGMENT_SHADER (fragment_sources ex conf)) @
              ''\<newline>'',
            ''shader source:\<newline>''] @ dump_log ex (fragment_sources ex conf)\<rparr>)"
  using assms
  by (simp add: gl_shader_create_def error_vertex_def error_fragment_def weston_log_scope_printf_def
      compile_shader_ok compile_shader_failed announce_def Let_def new_gl_shader_def
      glDeleteShader_def gl_issue_def vertex_calls_def fragment_calls_def fragment_sources_def)

lemma create_link_failed:
  assumes "zalloc ex = Some p"
    and "compile_status ex GL_VERTEX_SHADER [vertex_shader_glsl ex]"
    and "create_shader_config_string ex requirements = Some conf"
    and "compile_status ex GL_FRAGMENT_SHADER (fragment_sources ex conf)"
    and "\<not> link_status ex"
  shows "gl_shader_create ex requirements gr =
     (None,
      gr\<lparr>shader_scope_out := shader_scope_out gr @ announce ex requirements gr,
         gl_names := Suc (Suc (Suc (gl_names gr))),
         gl_shaders := gl_shaders gr,
         gl_programs := gl_programs gr,
         gl_calls := gl_calls gr @ vertex_calls ex (gl_names gr) @
           fragment_calls ex conf (gl_names gr) @ program_calls (gl_names gr) @
           [GlGetProgramInfoLog (Suc (Suc (Suc (gl_names gr)))),
            GlDeleteProgram (Suc (Suc (Suc (gl_names gr)))),
            GlDeleteShader (Suc (Suc (gl_names gr))), GlDeleteShader (Suc (gl_names gr))],
         weston_log_out := weston_log_out gr @
           [''link info: '' @ take 511 (program_info_log ex) @ ''\<newline>'']\<rparr>)"
  using assms
  by (simp add: gl_shader_create_def link_program_def error_vertex_def error_fragment_def
      error_link_def weston_log_scope_printf_def weston_log_def
      compile_shader_ok announce_def Let_def new_gl_shader_def
      glDeleteShader_def glDeleteProgram_def glCreateProgram_def gl_issue_def
      vertex_calls_def fragment_calls_def program_calls_def fragment_sources_def)

lemma create_created:
  assumes "zalloc ex = Some p"
    and "compile_status ex GL_VERTEX_SHADER [vertex_shader_glsl ex]"
    and "create_shader_config_string ex requirements = Some conf"
    and "compile_status ex GL_FRAGMENT_SHADER (fragment_sources ex conf)"
    and "link_status ex"
  shows "gl_shader_create ex requirements gr =
     (Some p,
      gr\<lparr>shader_list := (p, created_shader ex requirements (gl_names gr)) # shader_list gr,
         shader_scope_out := shader_scope_out gr @ announce ex requirements gr,
         gl_names := Suc (Suc (Suc (gl_names gr))),
         gl_shaders := gl_shaders gr,
         gl_programs := Suc (Suc (Suc (gl_names gr))) # gl_programs gr,
         gl_calls := gl_calls gr @ vertex_calls ex (gl_names gr) @
           fragment_calls ex conf (gl_names gr) @ program_calls (gl_names gr) @
           [GlDeleteShader (Suc (gl_names gr)), GlDeleteShader (Suc (Suc (gl_names gr)))] @
           uniform_calls (gl_names gr)\<rparr>)"
  using assms
  by (simp add: gl_shader_create_def link_program_def get_uniform_locations_def
      weston_log_scope_printf_def
      compile_shader_ok announce_def Let_def new_gl_shader_def
      glDeleteShader_def glCreateProgram_def gl_issue_def created_shader_def
      vertex_calls_def fragment_calls_def program_calls_def uniform_calls_def fragment_sources_def)

lemma calls_since_append [simp]:
  "gl_calls gr' = gl_calls gr @ cs \<Longrightarrow> calls_since gr gr' = cs"
  by (simp add: calls_since_def)

lemma log_since_append [simp]:
  "weston_log_out gr' = weston_log_out gr @ ls \<Longrightarrow> log_since gr gr' = ls"
  by (simp add: log_since_def)

lemma create_cases:
  obtains (alloc) "zalloc ex = None"
  | (vertex) p where "zalloc ex = Some p" "\<not> compile_status ex GL_VERTEX_SHADER [vertex_shader_glsl ex]"
  | (config) p where "zalloc ex = Some p" "compile_status ex GL_VERTEX_SHADER [vertex_shader_glsl ex]"
      "create_shader_config_string ex requirements = None"
  | (fragment) p conf where "zalloc ex = Some p" "compile_status ex GL_VERTEX_SHADER [vertex_shader_glsl ex]"
      "create_shader_config_string ex requirements = Some conf"
      "\<not> compile_status ex GL_FRAGMENT_SHADER (fragment_sources ex conf)"
  | (link) p conf where "zalloc ex = Some p" "compile_status ex GL_VERTEX_SHADER [vertex_shader_glsl ex]"
      "create_shader_config_string ex requirements = Some conf"
      "compile_status ex GL_FRAGMENT_SHADER (fragment_sources ex conf)"
      "\<not> link_status ex"
  | (created) p conf where "zalloc ex = Some p" "compile_status ex GL_VERTEX_SHADER [vertex_shader_glsl ex]"
      "create_shader_config_string ex requirements = Some conf"
      "compile_status ex GL_FRAGMENT_SHADER (fragment_sources ex conf)"
      "link_status ex"
  by (cases "zalloc ex"; cases "create_shader_config_string ex requirements"; blast)

lemma compiled_deleted_once:
  "compiled_in (calls_since gr (snd (gl_shader_create ex requirements gr))) s \<Longrightarrow>
   count_list (calls_since gr (snd (gl_shader_create ex requirements gr))) (GlDeleteShader s) = 1"
proof (cases rule: create_cases[where ex = ex and requirements = requirements])
  case alloc
  assume "compiled_in (calls_since gr (snd (gl_shader_create ex requirements gr))) s"
  then show ?thesis
    by (simp add: create_alloc_failed[OF alloc] compiled_in_def calls_since_def)
next
  case (vertex p)
  assume "compiled_in (calls_since gr (snd (gl_shader_create ex requirements gr))) s"
  then show ?thesis
    by (auto simp: create_vertex_failed[OF vertex] compiled_in_def)
next
  case (config p)
  assume "compiled_in (calls_since gr (snd (gl_shader_create ex requirements gr))) s"
  then show ?thesis
    by (auto simp: create_config_failed[OF config] compiled_in_def vertex_calls_def)
next
  case (fragment p conf)
  assume "compiled_in (calls_since gr (snd (gl_shader_create ex requirements gr))) s"
  then show ?thesis
    by (auto simp: create_fragment_failed[OF fragment] compiled_in_def vertex_calls_def fragment_calls_def)
next
  case (link p conf)
  assume "compiled_in (calls_since gr (snd (gl_shader_create ex requirements gr))) s"
  then show ?thesis
    by (auto simp: create_link_failed[OF link] compiled_in_def vertex_calls_def fragment_calls_def
        program_calls_def)
next
  case (created p conf)
  assume "compiled_in (calls_since gr (snd (gl_shader_create ex requirements gr))) s"
  then show ?thesis
    by (auto simp: create_created[OF created] compiled_in_def vertex_calls_def fragment_calls_def
        program_calls_def uniform_calls_def)
qed

lemma created_iff:
  assumes "gl_shader_create ex requirements gr = (Some p, gr')"
  obtains conf where "zalloc ex = Some p" "compile_status ex GL_VERTEX_SHADER [vertex_shader_glsl ex]"
      "create_shader_config_string ex requirements = Some conf"
      "compile_status ex GL_FRAGMENT_SHADER (fragment_sources ex conf)"
      "link_status ex"
proof (cases rule: create_cases[where ex = ex and requirements = requirements])
  case alloc
  then show ?thesis using assms by (simp add: create_alloc_failed)
next
  case (vertex q)
  then show ?thesis using assms by (simp add: create_vertex_failed)
next
  case (config q)
  then show ?thesis using assms by (simp add: create_config_failed)
next
  case (fragment q conf)
  then show ?thesis using assms by (simp add: create_fragment_failed)
next
  case (link q conf)
  then show ?thesis using assms by (simp add: create_link_failed)
next
  case (created q conf)
  then show ?thesis using assms that[of conf] by (simp add: create_created)
qed

lemma mock_created:
  "gl_shader_create mock_externals requirements gr =
     (Some 4096,
      gr\<lparr>shader_list := (4096, created_shader mock_externals requirements (gl_names gr)) # shader_list gr,
         shader_scope_out := shader_scope_out gr @ announce mock_externals requirements gr,
         gl_names := Suc (Suc (Suc (gl_names gr))),
         gl_shaders := gl_shaders gr,
         gl_programs := Suc (Suc (Suc (gl_names gr))) # gl_programs gr,
         gl_calls := gl_calls gr @ vertex_calls mock_externals (gl_names gr) @
           fragment_calls mock_externals (the (create_shader_config_string mock_externals requirements)) (gl_names gr) @ program_calls (gl_names gr) @
           [GlDeleteShader (Suc (gl_names gr)), GlDeleteShader (Suc (Suc (gl_names gr)))] @
           uniform_calls (gl_names gr)\<rparr>)"
  by (rule create_created)
     (simp_all add: mock_externals_def create_shader_config_string_def asprintf_def)

subsection \<open>The sources given to the driver\<close>


subsection \<open>Failed attempts\<close>

lemma program_deleted_once:
  assumes "fst (gl_shader_create ex requirements gr) = None"
    and "GlCreateProgram p \<in> set (calls_since gr (snd (gl_shader_create ex requirements gr)))"
  shows "count_list (calls_since gr (snd (gl_shader_create ex requirements gr))) (GlDeleteProgram p) = 1"
proof (cases rule: create_cases[where ex = ex and requirements = requirements])
  case alloc
  then show ?thesis using assms(2)
    by (simp add: create_alloc_failed calls_since_def)
next
  case (vertex q)
  then show ?thesis using assms(2)
    by (simp add: create_vertex_failed)
next
  case (config q)
  then show ?thesis using assms(2)
    by (simp add: create_config_failed vertex_calls_def)
next
  case (fragment q conf)
  then show ?thesis using assms(2)
    by (simp add: create_fragment_failed vertex_calls_def fragment_calls_def)
next
  case (link q conf)
  then show ?thesis using assms(2)
    by (auto simp: create_link_failed vertex_calls_def fragment_calls_def program_calls_def)
next
  case (created q conf)
  then show ?thesis using assms(1)
    by (simp add: create_created)
qed

lemma failed_attempt_state:
  assumes "fst (gl_shader_create ex requirements gr) = None"
  shows "shader_list (snd (gl_shader_create ex requirements gr)) = shader_list gr
       \<and> gl_programs (snd (gl_shader_create ex requirements gr)) = gl_programs gr"
proof (cases rule: create_cases[where ex = ex and requirements = requirements])
  case alloc
  then show ?thesis by (simp add: create_alloc_failed)
next
  case (vertex q)
  then show ?thesis by (simp add: create_vertex_failed)
next
  case (config q)
  then show ?thesis by (simp add: create_config_failed)
next
  case (fragment q conf)
  then show ?thesis by (simp add: create_fragment_failed)
next
  case (link q conf)
  then show ?thesis by (simp add: create_link_failed)
next
  case (created q conf)
  then show ?thesis using assms by (simp add: create_created)
qed

lemma failed_attempt_log:
  assumes "fst (gl_shader_create ex requirements gr) = None"
  shows "log_since gr (snd (gl_shader_create ex requirements gr)) =
     (if zalloc ex = None then [''could not create shader\<newline>'']
      else if \<not> compile_status ex GL_VERTEX_SHADER [vertex_shader_glsl ex] then
        [''shader info: '' @
           take 511 (shader_info_log ex GL_VERTEX_SHADER [vertex_shader_glsl ex]) @ ''\<newline>'',
         ''shader source:\<newline>''] @ dump_log ex [vertex_shader_glsl ex]
      else
        (case create_shader_config_string ex requirements of
           None \<Rightarrow> []
         | Some conf \<Rightarrow>
             if \<not> compile_status ex GL_FRAGMENT_SHADER (fragment_sources ex conf) then
               [''shader info: '' @
                  take 511 (shader_info_log ex GL_FRAGMENT_SHADER (fragment_sources ex conf)) @
                  ''\<newline>'',
                ''shader source:\<newline>''] @ dump_log ex (fragment_sources ex conf)
             else [''link info: '' @ take 511 (program_info_log ex) @ ''\<newline>'']))"
proof (cases rule: create_cases[where ex = ex and requirements = requirements])
  case alloc
  then show ?thesis by (simp add: create_alloc_failed)
next
  case (vertex q)
  then show ?thesis by (simp add: create_vertex_failed)
next
  case (config q)
  then show ?thesis by (simp add: create_config_failed log_since_def)
next
  case (fragment q conf)
  then show ?thesis by (simp add: create_fragment_failed)
next
  case (link q conf)
  then show ?thesis by (simp add: create_link_failed)
next
  case (created q conf)
  then show ?thesis using assms by (simp add: create_created)
qed

lemma empty_renderer_simps:
  "shader_list empty_renderer = []" "shader_scope_enabled empty_renderer = False"
  "shader_scope_out empty_renderer = []" "weston_log_out empty_renderer = []"
  "gl_names empty_renderer = 0" "gl_shaders empty_renderer = []"
  "gl_programs empty_renderer = []" "gl_calls empty_renderer = []"
  by (simp_all add: empty_renderer_def)

lemma vertex_fails_eval:
  "gl_shader_create vertex_fails requirements empty_renderer =
     (None,
      empty_renderer\<lparr>gl_names := 1, gl_shaders := [1],
        gl_calls := [GlCreateShader GL_VERTEX_SHADER 1, GlShaderSource 1 [''void main() { }\<newline>''],
                     GlCompileShader 1, GlGetShaderiv 1, GlGetShaderInfoLog 1],
        weston_log_out := [''shader info: ERROR: 0:1: syntax error\<newline>'', ''shader source:\<newline>''] @
                          dump_log vertex_fails [''void main() { }\<newline>'']\<rparr>)"
proof -
  have "zalloc vertex_fails = Some 4096"
    and "\<not> compile_status vertex_fails GL_VERTEX_SHADER [vertex_shader_glsl vertex_fails]"
    by (simp_all add: vertex_fails_def mock_externals_def)
  from create_vertex_failed[OF this] show ?thesis
    by (simp add: vertex_fails_def mock_externals_def empty_renderer_def announce_def)
qed

lemma long_log_fails_eval:
  "log_since empty_renderer (snd (gl_shader_create long_log_fails requirements empty_renderer)) =
     [''shader info: '' @ replicate 511 (CHR ''x'') @ ''\<newline>'', ''shader source:\<newline>''] @
     dump_log long_log_fails [''void main() { }\<newline>'']"
proof -
  have "zalloc long_log_fails = Some 4096"
    and "\<not> compile_status long_log_fails GL_VERTEX_SHADER [vertex_shader_glsl long_log_fails]"
    by (simp_all add: long_log_fails_def vertex_fails_def mock_externals_def)
  from create_vertex_failed[OF this] show ?thesis
    by (simp add: long_log_fails_def vertex_fails_def mock_externals_def)
qed

lemma fragment_fails_eval:
  "gl_shader_create fragment_fails rgba_requirements empty_renderer =
     (None,
      empty_renderer\<lparr>gl_names := 2, gl_shaders := [2],
        gl_calls := [GlCreateShader GL_VERTEX_SHADER 1, GlShaderSource 1 [''void main() { }\<newline>''],
                     GlCompileShader 1, GlGetShaderiv 1,
                     GlCreateShader GL_FRAGMENT_SHADER 2,
                     GlShaderSource 2 [''#version 100\<newline>'',
                       ''#define DEF_GREEN_TINT false\<newline>#define DEF_VARIANT SHADER_VARIANT_RGBA\<newline>'',
                       ''void main() { gl_FragColor = vec4(1.0); }\<newline>''],
                     GlCompileShader 2, GlGetShaderiv 2, GlGetShaderInfoLog 2, GlDeleteShader 1],
        weston_log_out := [''shader info: ERROR: 0:1: syntax error\<newline>'', ''shader source:\<newline>''] @
                          dump_log fragment_fails [''#version 100\<newline>'',
                       ''#define DEF_GREEN_TINT false\<newline>#define DEF_VARIANT SHADER_VARIANT_RGBA\<newline>'',
                       ''void main() { gl_FragColor = vec4(1.0); }\<newline>'']\<rparr>)"
proof -
  have "zalloc fragment_fails = Some 4096"
    and "compile_status fragment_fails GL_VERTEX_SHADER [vertex_shader_glsl fragment_fails]"
    and "create_shader_config_string fragment_fails rgba_requirements =
      Some ''#define DEF_GREEN_TINT false\<newline>#define DEF_VARIANT SHADER_VARIANT_RGBA\<newline>''"
    and "\<not> compile_status fragment_fails GL_FRAGMENT_SHADER (fragment_sources fragment_fails
      ''#define DEF_GREEN_TINT false\<newline>#define DEF_VARIANT SHADER_VARIANT_RGBA\<newline>'')"
    by (simp_all add: fragment_fails_def mock_externals_def create_shader_config_string_def
        asprintf_def rgba_requirements_def)
  from create_fragment_failed[OF this] show ?thesis
    by (simp add: fragment_fails_def mock_externals_def empty_renderer_def announce_def
        vertex_calls_def fragment_calls_def fragment_sources_def)
qed

lemma rgba_cached_eval:
  "rgba_cached =
     empty_renderer\<lparr>shader_list := [(4096, created_shader mock_externals rgba_requirements 0)],
       gl_names := 3, gl_programs := [3],
       gl_calls := vertex_calls mock_externals 0 @
         fragment_calls mock_externals
           (the (create_shader_config_string mock_externals rgba_requirements)) 0 @
         program_calls 0 @ [GlDeleteShader 1, GlDeleteShader 2] @ uniform_calls 0\<rparr>"
  by (simp add: rgba_cached_def mock_created empty_renderer_def announce_def numeral_3_eq_3)

lemma link_fails_eval:
  "gl_shader_create link_fails solid_requirements rgba_cached =
     (None,
      rgba_cached\<lparr>gl_names := 6,
        gl_calls := gl_calls rgba_cached @
          vertex_calls link_fails 3 @
          fragment_calls link_fails
            ''#define DEF_GREEN_TINT true\<newline>#define DEF_VARIANT SHADER_VARIANT_SOLID\<newline>'' 3 @
          program_calls 3 @
          [GlGetProgramInfoLog 6, GlDeleteProgram 6, GlDeleteShader 5, GlDeleteShader 4],
        weston_log_out := [''link info: error: varyings do not match\<newline>'']\<rparr>)"
proof -
  have "zalloc link_fails = Some 4096"
    and "compile_status link_fails GL_VERTEX_SHADER [vertex_shader_glsl link_fails]"
    and "create_shader_config_string link_fails solid_requirements =
      Some ''#define DEF_GREEN_TINT true\<newline>#define DEF_VARIANT SHADER_VARIANT_SOLID\<newline>''"
    and "compile_status link_fails GL_FRAGMENT_SHADER (fragment_sources link_fails
      ''#define DEF_GREEN_TINT true\<newline>#define DEF_VARIANT SHADER_VARIANT_SOLID\<newline>'')"
    and "\<not> link_status link_fails"
    by (simp_all add: link_fails_def mock_externals_def create_shader_config_string_def
        asprintf_def solid_requirements_def)
  from create_link_failed[OF this, of rgba_cached] show ?thesis
    by (simp add: rgba_cached_eval empty_renderer_def announce_def link_fails_def
        mock_externals_def)
qed

subsection \<open>The dump\<close>

lemma int64_to_int_id:
  assumes "- 2147483648 \<le> t" and "t < 2147483648"
  shows "int64_to_int t = t"
proof -
  have "sint (word_of_int t :: 32 word) = signed_take_bit 31 t"
    by (simp add: signed_of_int)
  also have "\<dots> = t"
    using assms by (intro signed_take_bit_int_eq_self) simp_all
  finally show ?thesis
    by (simp add: int64_to_int_def)
qed

lemma dump_shaders_eq:
  "dump_shaders ex now l count subs =
     (count + int (length l), subs @ map (\<lambda>(p, shader). dump_line ex now shader) l)"
  by (induction l arbitrary: count subs) auto

lemma rgba_cached_list:
  "shader_list rgba_cached = [(4096, created_shader mock_externals rgba_requirements 0)]"
  by (simp add: rgba_cached_eval)

subsection \<open>Destroying entries\<close>

lemma gl_shader_destroy_head:
  assumes "shader_list gr = (p, shader) # rest"
  shows "\<exists>gr'. gl_shader_destroy ex p gr = Some gr'
       \<and> shader_list gr' = rest
       \<and> gl_calls gr' = gl_calls gr @ [GlDeleteProgram (program shader)]
       \<and> gl_programs gr' = remove1 (program shader) (gl_programs gr)"
  using assms
  by (simp add: gl_shader_destroy_def glDeleteProgram_def gl_issue_def
      weston_log_scope_printf_def Let_def)

lemma destroy_each_all:
  "shader_list gr = l \<Longrightarrow>
   \<exists>gr'. destroy_each ex (map fst l) gr = Some gr'
       \<and> shader_list gr' = []
       \<and> gl_calls gr' = gl_calls gr @ map (\<lambda>(p, shader). GlDeleteProgram (program shader)) l"
proof (induction l arbitrary: gr)
  case Nil
  then show ?case by simp
next
  case (Cons e l)
  obtain p shader where e: "e = (p, shader)"
    by (cases e)
  from Cons.prems e have "shader_list gr = (p, shader) # l"
    by simp
  from gl_shader_destroy_head[OF this, of ex]
  obtain gr1 where d: "gl_shader_destroy ex p gr = Some gr1"
    and l1: "shader_list gr1 = l"
    and c1: "gl_calls gr1 = gl_calls gr @ [GlDeleteProgram (program shader)]"
    by blast
  from Cons.IH[OF l1]
  obtain gr' where r: "destroy_each ex (map fst l) gr1 = Some gr'"
    and l': "shader_list gr' = []"
    and c': "gl_calls gr' = gl_calls gr1 @ map (\<lambda>(p, shader). GlDeleteProgram (program shader)) l"
    by blast
  have "destroy_each ex (map fst (e # l)) gr = Some gr'"
    by (simp add: e d r)
  moreover have "gl_calls gr' =
      gl_calls gr @ map (\<lambda>(p, shader). GlDeleteProgram (program shader)) (e # l)"
    by (simp add: c' c1 e)
  ultimately show ?case
    using l' by blast
qed

lemma dump_empty:
  "shader_list gr = [] \<Longrightarrow>
   fst (gl_shader_scope_new_subscription ex gr) =
     [''Vertex shader body:\<newline>'' @ bar @ ''\<newline>'' @ vertex_shader_glsl ex @ ''\<newline>'' @
      ''Fragment shader body:\<newline>'' @ bar @ ''\<newline>'' @ fragment_shader_glsl ex @
      ''\<newline>'' @ bar @ ''\<newline>'',
      ''Cached GLSL programs:\<newline>    id: (used secs ago) description +/-flags\<newline>'',
      ''Total: 0 programs.\<newline>'']"
  by (simp add: gl_shader_scope_new_subscription_def printf_d_def decimal.simps)

lemma destroy_all_result:
  "\<exists>gr'. destroy_all ex gr = Some gr'
      \<and> shader_list gr' = []
      \<and> gl_calls gr' =
          gl_calls gr @ map (\<lambda>(p, shader). GlDeleteProgram (program shader)) (shader_list gr)"
  using destroy_each_all[OF refl, of ex gr]
  by (simp add: destroy_all_def)

lemma dump_keeps_state:
  "snd (gl_shader_scope_new_subscription ex gr) = gr"
  by (simp add: gl_shader_scope_new_subscription_def Let_def split: prod.splits)

lemma two_cached_list:
  "shader_list two_cached =
     [(8192, created_shader mock_externals solid_requirements 3),
      (4096, created_shader mock_externals rgba_requirements 0)]"
proof -
  let ?ex = "mock_externals\<lparr>zalloc := Some 8192\<rparr>"
  have "zalloc ?ex = Some 8192"
    and "compile_status ?ex GL_VERTEX_SHADER [vertex_shader_glsl ?ex]"
    and "create_shader_config_string ?ex solid_requirements =
      Some ''#define DEF_GREEN_TINT true\<newline>#define DEF_VARIANT SHADER_VARIANT_SOLID\<newline>''"
    and "compile_status ?ex GL_FRAGMENT_SHADER (fragment_sources ?ex
      ''#define DEF_GREEN_TINT true\<newline>#define DEF_VARIANT SHADER_VARIANT_SOLID\<newline>'')"
    and "link_status ?ex"
    by (simp_all add: mock_externals_def create_shader_config_string_def
        asprintf_def solid_requirements_def)
  from create_created[OF this, of rgba_cached]
  have "shader_list two_cached =
      (8192, created_shader ?ex solid_requirements (gl_names rgba_cached)) # shader_list rgba_cached"
    by (simp add: two_cached_def)
  moreover have "gl_names rgba_cached = 3"
    by (simp add: rgba_cached_eval)
  moreover have "created_shader ?ex solid_requirements 3 =
      created_shader mock_externals solid_requirements 3"
    by (simp add: created_shader_def)
  ultimately show ?thesis
    by (simp add: rgba_cached_list)
qed

subsection \<open>Lookup, creation and runs of the cache\<close>

lemma create_list_cases:
  "shader_list (snd (gl_shader_create ex requirements gr)) = shader_list gr
   \<or> (\<exists>p. fst (gl_shader_create ex requirements gr) = Some p
         \<and> shader_list (snd (gl_shader_create ex requirements gr)) =
             (p, created_shader ex requirements (gl_names gr)) # shader_list gr)"
proof (cases "fst (gl_shader_create ex requirements gr)")
  case None
  then show ?thesis
    by (simp add: failed_attempt_state)
next
  case (Some p)
  then have c: "gl_shader_create ex requirements gr =
      (Some p, snd (gl_shader_create ex requirements gr))"
    by (metis prod.collapse)
  from c obtain conf where h: "zalloc ex = Some p"
      "compile_status ex GL_VERTEX_SHADER [vertex_shader_glsl ex]"
      "create_shader_config_string ex requirements = Some conf"
      "compile_status ex GL_FRAGMENT_SHADER (fragment_sources ex conf)"
      "link_status ex"
    by (rule created_iff)
  show ?thesis
    by (simp add: create_created[OF h])
qed

lemma find_key_None:
  "find (\<lambda>(p, shader). key shader = requirements) l = None \<Longrightarrow>
   requirements \<notin> set (map (\<lambda>(p, shader). key shader) l)"
  by (auto simp: find_None_iff)

lemma get_or_create_hit:
  "find (\<lambda>(p, shader). key shader = requirements) (shader_list gr) = Some (p, shader) \<Longrightarrow>
   get_or_create ex requirements gr = (Some p, gr)"
  by (simp add: get_or_create_def)

lemma get_or_create_miss:
  "find (\<lambda>(p, shader). key shader = requirements) (shader_list gr) = None \<Longrightarrow>
   get_or_create ex requirements gr = gl_shader_create ex requirements gr"
  by (simp add: get_or_create_def)

lemma get_or_create_keeps:
  "\<exists>new. shader_list (snd (get_or_create ex requirements gr)) = new @ shader_list gr"
proof (cases "find (\<lambda>(p, shader). key shader = requirements) (shader_list gr)")
  case None
  with create_list_cases[of ex requirements gr] show ?thesis
    by (auto simp: get_or_create_miss)
next
  case (Some e)
  then show ?thesis
    by (cases e) (simp add: get_or_create_hit)
qed

lemma get_or_create_distinct:
  assumes "distinct (cached_keys gr)"
  shows "distinct (cached_keys (snd (get_or_create ex requirements gr)))"
proof (cases "find (\<lambda>(p, shader). key shader = requirements) (shader_list gr)")
  case None
  from find_key_None[OF None] have "requirements \<notin> set (cached_keys gr)"
    by (simp add: cached_keys_def)
  with assms create_list_cases[of ex requirements gr] show ?thesis
    by (auto simp: get_or_create_miss[OF None] cached_keys_def created_shader_def)
next
  case (Some e)
  with assms show ?thesis
    by (cases e) (simp add: get_or_create_hit)
qed

lemma get_or_create_again:
  assumes "get_or_create ex requirements gr = (Some p, gr1)"
  shows "get_or_create ex' requirements gr1 = (Some p, gr1)"
proof (cases "find (\<lambda>(p, shader). key shader = requirements) (shader_list gr)")
  case None
  with assms have c: "gl_shader_create ex requirements gr = (Some p, gr1)"
    by (simp add: get_or_create_miss)
  from c obtain conf where h: "zalloc ex = Some p"
      "compile_status ex GL_VERTEX_SHADER [vertex_shader_glsl ex]"
      "create_shader_config_string ex requirements = Some conf"
      "compile_status ex GL_FRAGMENT_SHADER (fragment_sources ex conf)"
      "link_status ex"
    by (rule created_iff)
  from c have "gr1 = snd (gl_shader_create ex requirements gr)"
    by simp
  then have "shader_list gr1 =
      (p, created_shader ex requirements (gl_names gr)) # shader_list gr"
    by (simp add: create_created[OF h])
  then have "find (\<lambda>(p, shader). key shader = requirements) (shader_list gr1) =
      Some (p, created_shader ex requirements (gl_names gr))"
    by (simp add: created_shader_def)
  then show ?thesis
    by (rule get_or_create_hit)
next
  case (Some e)
  obtain q shader where e: "e = (q, shader)"
    by (cases e)
  from Some e assms have "q = p" and "gr1 = gr"
    by (simp_all add: get_or_create_hit)
  with Some e show ?thesis
    by (simp add: get_or_create_hit)
qed

lemma cache_step_distinct:
  assumes "distinct (cached_keys gr)" and "cache_step op gr = Some gr'"
  shows "distinct (cached_keys gr')"
proof (cases op)
  case (Pair ex c)
  show ?thesis
  proof (cases c)
    case (Get_or_create requirements)
    with Pair assms show ?thesis
      using get_or_create_distinct[of gr ex requirements] by auto
  next
    case Destroy_all
    with Pair assms destroy_all_result[of ex gr] show ?thesis
      by (auto simp: cached_keys_def)
  next
    case Dump
    with Pair assms show ?thesis
      by (simp add: dump_keeps_state)
  qed
qed

lemma cache_run_distinct:
  "distinct (cached_keys gr) \<Longrightarrow> cache_run ops gr = Some gr' \<Longrightarrow> distinct (cached_keys gr')"
proof (induction ops arbitrary: gr)
  case Nil
  then show ?case by simp
next
  case (Cons op ops)
  from Cons.prems(2) obtain gr1 where s: "cache_step op gr = Some gr1"
    and r: "cache_run ops gr1 = Some gr'"
    by (auto split: option.splits)
  from cache_step_distinct[OF Cons.prems(1) s] Cons.IH r show ?case
    by blast
qed

lemma distinct_count_le_1: "distinct xs \<Longrightarrow> count_list xs x \<le> 1"
  by (induction xs) (auto simp: count_list_0_iff)

lemma rgba_first_call:
  "get_or_create mock_externals rgba_requirements empty_renderer = (Some 4096, rgba_cached)"
proof -
  have "get_or_create mock_externals rgba_requirements empty_renderer =
      gl_shader_create mock_externals rgba_requirements empty_renderer"
    by (simp add: get_or_create_def empty_renderer_simps)
  moreover have "fst (gl_shader_create mock_externals rgba_requirements empty_renderer) = Some 4096"
    by (simp add: mock_created)
  ultimately show ?thesis
    by (simp add: rgba_cached_def prod_eq_iff)
qed

subsection \<open>Unlinking entries, and the milliseconds of the dump\<close>

lemma create_keeps:
  "\<exists>new. shader_list (snd (gl_shader_create ex requirements gr)) = new @ shader_list gr"
  using create_list_cases[of ex requirements gr] by auto

lemma shader_step_keeps:
  assumes "shader_step (ex, c) gr = Some gr'" and "\<not> unlinks c"
  shows "\<exists>new. shader_list gr' = new @ shader_list gr"
proof (cases c)
  case (Op_get_or_create requirements)
  with assms get_or_create_keeps[of ex requirements gr] show ?thesis
    by auto
next
  case (Op_gl_shader_create requirements)
  with assms create_keeps[of ex requirements gr] show ?thesis
    by auto
next
  case (Op_gl_shader_destroy p)
  with assms show ?thesis by simp
next
  case Op_destroy_all
  with assms show ?thesis by simp
next
  case Op_dump
  with assms show ?thesis
    by (auto simp: dump_keeps_state)
qed

lemma shader_run_keeps:
  "shader_run ops gr = Some gr' \<Longrightarrow> \<forall>op \<in> set ops. \<not> unlinks (snd op) \<Longrightarrow>
   \<exists>new. shader_list gr' = new @ shader_list gr"
proof (induction ops arbitrary: gr)
  case Nil
  then show ?case by simp
next
  case (Cons op ops)
  from Cons.prems(1) obtain gr1 where s: "shader_step op gr = Some gr1"
    and r: "shader_run ops gr1 = Some gr'"
    by (auto split: option.splits)
  obtain ex c where op: "op = (ex, c)"
    by (cases op)
  from Cons.prems(2) op have c: "\<not> unlinks c" and rest: "\<forall>op \<in> set ops. \<not> unlinks (snd op)"
    by auto
  from shader_step_keeps[OF s[unfolded op] c]
  obtain new1 where n1: "shader_list gr1 = new1 @ shader_list gr"
    by blast
  from Cons.IH[OF r rest] obtain new2 where "shader_list gr' = new2 @ shader_list gr1"
    by blast
  with n1 have "shader_list gr' = (new2 @ new1) @ shader_list gr"
    by simp
  then show ?case
    by blast
qed

lemma gl_shader_destroy_one:
  assumes "gl_shader_destroy ex p gr = Some gr'"
  shows "\<exists>before shader after.
      shader_list gr = before @ (p, shader) # after \<and> shader_list gr' = before @ after"
proof -
  from assms obtain shader where m: "map_of (shader_list gr) p = Some shader"
    by (auto simp: gl_shader_destroy_def split: option.splits)
  with assms have l: "shader_list gr' = remove1 (p, shader) (shader_list gr)"
    by (auto simp: gl_shader_destroy_def glDeleteProgram_def gl_issue_def
        weston_log_scope_printf_def Let_def)
  from m have "(p, shader) \<in> set (shader_list gr)"
    by (rule map_of_SomeD)
  with l show ?thesis
    by (metis remove1_split)
qed

lemma destroy_solid:
  "map_option shader_list (gl_shader_destroy mock_externals 8192 two_cached) =
     Some [(4096, created_shader mock_externals rgba_requirements 0)]"
  by (simp add: gl_shader_destroy_def two_cached_list glDeleteProgram_def gl_issue_def
      weston_log_scope_printf_def Let_def)

lemma int64_to_int_wrap: "int64_to_int (t + 4294967296) = int64_to_int t"
proof -
  have "take_bit 32 (t + 4294967296) = take_bit 32 t"
    by (simp add: take_bit_eq_mod)
  then have "(word_of_int (t + 4294967296) :: 32 word) = word_of_int t"
    by (simp add: word_of_int_eq_iff)
  then show ?thesis
    by (simp only: int64_to_int_def)
qed

lemma dump_eq:
  "fst (gl_shader_scope_new_subscription ex gr) =
     [''Vertex shader body:\<newline>'' @ bar @ ''\<newline>'' @ vertex_shader_glsl ex @ ''\<newline>'' @
      ''Fragment shader body:\<newline>'' @ bar @ ''\<newline>'' @ fragment_shader_glsl ex @
      ''\<newline>'' @ bar @ ''\<newline>'',
      ''Cached GLSL programs:\<newline>    id: (used secs ago) description +/-flags\<newline>''] @
     map (\<lambda>(p, shader). dump_line ex (presentation_clock ex) shader) (shader_list gr) @
     [''Total: '' @ printf_d (int (length (shader_list gr))) @ '' programs.\<newline>'']"
  by (simp add: gl_shader_scope_new_subscription_def dump_shaders_eq Let_def)

lemma late_msecs:
  "timespec_sub_to_msec mock_externals late_clock
     (last_used (created_shader mock_externals rgba_requirements 0)) = 4294977296"
  by (simp add: mock_externals_def late_clock_def created_shader_def)

lemma mock_msecs:
  "timespec_sub_to_msec mock_externals (presentation_clock mock_externals)
     (last_used (created_shader mock_externals rgba_requirements 0)) = 10000"
  by (simp add: mock_externals_def created_shader_def)

lemma late_msecs_wrap: "int64_to_int 4294977296 = int64_to_int 10000"
  using int64_to_int_wrap[of 10000] by simp

lemma late_dump_line:
  "dump_line (mock_externals\<lparr>presentation_clock := late_clock, printf_f1 := f\<rparr>)
     late_clock (created_shader mock_externals rgba_requirements 0) =
   dump_line (mock_externals\<lparr>printf_f1 := f\<rparr>) (presentation_clock mock_externals)
     (created_shader mock_externals rgba_requirements 0)"
  by (simp add: dump_line_def create_shader_description_string_def asprintf_def
      late_msecs mock_msecs late_msecs_wrap)

lemma printf_6u_3: "printf_6u (Suc (Suc (Suc 0))) = ''     3''"
proof -
  have "replicate 5 (CHR '' '') = ''     ''"
    by (simp add: eval_nat_numeral)
  then have "printf_6u 3 = ''     3''"
    by (simp add: printf_6u_def width6_def decimal.simps)
  then show ?thesis
    by (simp add: numeral_3_eq_3)
qed

lemma mock_printf_f1: "printf_f1 mock_externals 10000 = ''10.0''"
proof -
  have "printf_d 10 = ''10''" and "printf_d 0 = ''0''"
    by (simp_all add: printf_d_def decimal.simps)
  then show ?thesis
    by (simp add: mock_externals_def)
qed

lemma late_dump_text:
  "dump_line (mock_externals\<lparr>presentation_clock := late_clock\<rparr>) late_clock
     (created_shader mock_externals rgba_requirements 0) =
   ''     3: (10.0) SHADER_VARIANT_RGBA -green\<newline>''"
proof -
  have 1: "program (created_shader mock_externals rgba_requirements 0) = Suc (Suc (Suc 0))"
    and 2: "key (created_shader mock_externals rgba_requirements 0) = rgba_requirements"
    by (simp_all add: created_shader_def)
  have 3: "create_shader_description_string
      (mock_externals\<lparr>presentation_clock := late_clock\<rparr>) rgba_requirements =
      Some ''SHADER_VARIANT_RGBA -green''"
    by (simp add: create_shader_description_string_def asprintf_def mock_externals_def
        rgba_requirements_def)
  have 4: "int64_to_int 10000 = 10000"
    by (rule int64_to_int_id) simp_all
  show ?thesis
    by (simp add: dump_line_def late_msecs late_msecs_wrap 1 2 3 4 mock_printf_f1
        printf_6u_3 printf_s_def)
qed

section \<open>The claims\<close>

text \<open>
  Claim C1. With the lookup of \<open>get_or_create\<close> in front of \<open>gl_shader_create\<close>, the
  cache never holds two entries with the same key: every sequence of cache operations
  that starts from a cache without duplicate keys ends in one, so each requirements
  value is the key of at most one entry. And once \<open>get_or_create\<close> has returned an
  entry for some requirements, a second call for the same requirements returns the same
  address, whatever the driver would answer then, and leaves the state as it is: it makes
  no GL call.
\<close>

theorem one_entry_per_key:
  "(distinct (cached_keys gr) \<and> cache_run ops gr = Some gr2 \<longrightarrow>
      distinct (cached_keys gr2) \<and> count_list (cached_keys gr2) requirements \<le> 1)
   \<and> (distinct (cached_keys gr) \<longrightarrow>
      distinct (cached_keys (snd (get_or_create ex requirements gr))))
   \<and> (get_or_create ex requirements gr = (Some p, gr1) \<longrightarrow>
      get_or_create ex' requirements gr1 = (Some p, gr1) \<and>
      calls_since gr1 (snd (get_or_create ex' requirements gr1)) = [])"
proof (intro conjI impI)
  assume "distinct (cached_keys gr) \<and> cache_run ops gr = Some gr2"
  then show "distinct (cached_keys gr2)"
    using cache_run_distinct by blast
  then show "count_list (cached_keys gr2) requirements \<le> 1"
    by (rule distinct_count_le_1)
next
  assume "distinct (cached_keys gr)"
  then show "distinct (cached_keys (snd (get_or_create ex requirements gr)))"
    by (rule get_or_create_distinct)
next
  assume "get_or_create ex requirements gr = (Some p, gr1)"
  then show again: "get_or_create ex' requirements gr1 = (Some p, gr1)"
    by (rule get_or_create_again)
  show "calls_since gr1 (snd (get_or_create ex' requirements gr1)) = []"
    by (simp add: again calls_since_def)
qed

theorem one_entry_per_key_witness:
  "get_or_create mock_externals rgba_requirements empty_renderer = (Some 4096, rgba_cached)
   \<and> get_or_create vertex_fails rgba_requirements rgba_cached = (Some 4096, rgba_cached)
   \<and> calls_since rgba_cached (snd (get_or_create vertex_fails rgba_requirements rgba_cached)) = []
   \<and> cache_run [(mock_externals, Get_or_create rgba_requirements),
                 (vertex_fails, Get_or_create rgba_requirements)] empty_renderer = Some rgba_cached
   \<and> cached_keys rgba_cached = [rgba_requirements]
   \<and> count_list (cached_keys rgba_cached) rgba_requirements \<le> 1"
proof -
  note t = one_entry_per_key[of empty_renderer
      "[(mock_externals, Get_or_create rgba_requirements),
        (vertex_fails, Get_or_create rgba_requirements)]"
      rgba_cached rgba_requirements mock_externals 4096 rgba_cached vertex_fails]
  from t rgba_first_call
  have again: "get_or_create vertex_fails rgba_requirements rgba_cached = (Some 4096, rgba_cached)"
    and calls: "calls_since rgba_cached
      (snd (get_or_create vertex_fails rgba_requirements rgba_cached)) = []"
    by blast+
  have run: "cache_run [(mock_externals, Get_or_create rgba_requirements),
      (vertex_fails, Get_or_create rgba_requirements)] empty_renderer = Some rgba_cached"
    by (simp add: rgba_first_call again)
  have "distinct (cached_keys empty_renderer)"
    by (simp add: cached_keys_def empty_renderer_simps)
  with t run have "count_list (cached_keys rgba_cached) rgba_requirements \<le> 1"
    by blast
  moreover have "cached_keys rgba_cached = [rgba_requirements]"
    by (simp add: cached_keys_def rgba_cached_list created_shader_def)
  ultimately show ?thesis
    using rgba_first_call again calls run by blast
qed

text \<open>
  Claim C2, as amended. When \<^verbatim>\<open>gl_shader_create\<close> fails at any stage, it returns
  \<^verbatim>\<open>NULL\<close>, the shader list and the program objects are as before the call, every
  shader object an earlier stage compiled has been deleted by exactly one
  \<^verbatim>\<open>glDeleteShader\<close> call, and a program object created in the call by exactly one
  \<^verbatim>\<open>glDeleteProgram\<close> call. What is written to the log: for a compile failure of
  either stage the line "shader info: " with the first 511 characters of the driver's
  log and the line "shader source:", followed by the numbered source when
  \<^verbatim>\<open>open_memstream\<close> and \<^verbatim>\<open>fclose\<close> both succeed and by nothing otherwise; for a
  link failure the line "link info: " with the first 511 characters of the driver's
  log; "could not create shader" when the entry cannot be allocated; nothing when the
  configuration text cannot be allocated.
\<close>

theorem failed_attempt_leaves_cache:
  assumes "gl_shader_create ex requirements gr = (None, gr')"
  shows "shader_list gr' = shader_list gr
       \<and> gl_programs gr' = gl_programs gr
       \<and> (\<forall>s. compiled_in (calls_since gr gr') s \<longrightarrow>
             count_list (calls_since gr gr') (GlDeleteShader s) = 1)
       \<and> (\<forall>p. GlCreateProgram p \<in> set (calls_since gr gr') \<longrightarrow>
             count_list (calls_since gr gr') (GlDeleteProgram p) = 1)
       \<and> log_since gr gr' =
           (if zalloc ex = None then [''could not create shader\<newline>'']
            else if \<not> compile_status ex GL_VERTEX_SHADER [vertex_shader_glsl ex] then
              [''shader info: '' @
                 take 511 (shader_info_log ex GL_VERTEX_SHADER [vertex_shader_glsl ex]) @
                 ''\<newline>'',
               ''shader source:\<newline>''] @
              (if open_memstream_ok ex \<and> fclose_ok ex
               then [dump_sources [vertex_shader_glsl ex] 1 True [] @ ''\<newline>''] else [])
            else
              (case create_shader_config_string ex requirements of
                 None \<Rightarrow> []
               | Some conf \<Rightarrow>
                   if \<not> compile_status ex GL_FRAGMENT_SHADER (fragment_sources ex conf) then
                     [''shader info: '' @
                        take 511 (shader_info_log ex GL_FRAGMENT_SHADER
                                    (fragment_sources ex conf)) @ ''\<newline>'',
                      ''shader source:\<newline>''] @
                     (if open_memstream_ok ex \<and> fclose_ok ex
                      then [dump_sources (fragment_sources ex conf) 1 True [] @ ''\<newline>'']
                      else [])
                   else [''link info: '' @ take 511 (program_info_log ex) @ ''\<newline>'']))"
proof -
  from assms have f: "fst (gl_shader_create ex requirements gr) = None"
    and gr': "gr' = snd (gl_shader_create ex requirements gr)"
    by simp_all
  show ?thesis
    unfolding gr'
    using failed_attempt_state[OF f] failed_attempt_log[OF f, unfolded dump_log_def]
      program_deleted_once[OF f]
      compiled_deleted_once[of gr ex requirements]
    by blast
qed

theorem failed_attempt_leaves_cache_witness:
  "fst (gl_shader_create link_fails solid_requirements rgba_cached) = None
   \<and> shader_list (snd (gl_shader_create link_fails solid_requirements rgba_cached)) =
       shader_list rgba_cached
   \<and> length (shader_list rgba_cached) = 1
   \<and> gl_programs (snd (gl_shader_create link_fails solid_requirements rgba_cached)) =
       gl_programs rgba_cached
   \<and> count_list (calls_since rgba_cached
        (snd (gl_shader_create link_fails solid_requirements rgba_cached))) (GlDeleteShader 4) = 1
   \<and> count_list (calls_since rgba_cached
        (snd (gl_shader_create link_fails solid_requirements rgba_cached))) (GlDeleteShader 5) = 1
   \<and> count_list (calls_since rgba_cached
        (snd (gl_shader_create link_fails solid_requirements rgba_cached))) (GlDeleteProgram 6) = 1
   \<and> log_since rgba_cached (snd (gl_shader_create link_fails solid_requirements rgba_cached)) =
       [''link info: error: varyings do not match\<newline>'']"
proof -
  let ?gr' = "snd (gl_shader_create link_fails solid_requirements rgba_cached)"
  have calls: "calls_since rgba_cached ?gr' =
      vertex_calls link_fails 3 @
      fragment_calls link_fails
        ''#define DEF_GREEN_TINT true\<newline>#define DEF_VARIANT SHADER_VARIANT_SOLID\<newline>'' 3 @
      program_calls 3 @
      [GlGetProgramInfoLog 6, GlDeleteProgram 6, GlDeleteShader 5, GlDeleteShader 4]"
    by (simp add: link_fails_eval)
  have c4: "compiled_in (calls_since rgba_cached ?gr') 4"
    unfolding calls
    by (simp add: compiled_in_def vertex_calls_def fragment_calls_def program_calls_def)
  have c5: "compiled_in (calls_since rgba_cached ?gr') 5"
    unfolding calls
    by (simp add: compiled_in_def vertex_calls_def fragment_calls_def program_calls_def)
  have p6: "GlCreateProgram 6 \<in> set (calls_since rgba_cached ?gr')"
    unfolding calls
    by (simp add: program_calls_def)
  have n: "length (shader_list rgba_cached) = 1"
    by (simp add: rgba_cached_eval)
  have "weston_log_out rgba_cached = []"
    by (simp add: rgba_cached_eval empty_renderer_simps)
  then have l: "log_since rgba_cached ?gr' = [''link info: error: varyings do not match\<newline>'']"
    by (simp add: link_fails_eval log_since_def)
  have r: "fst (gl_shader_create link_fails solid_requirements rgba_cached) = None"
    by (simp add: link_fails_eval)
  have "gl_shader_create link_fails solid_requirements rgba_cached = (None, ?gr')"
    by (simp add: link_fails_eval)
  note t = failed_attempt_leaves_cache[OF this]
  note a = t[THEN conjunct1]
  note b = t[THEN conjunct2, THEN conjunct1]
  note d4 = t[THEN conjunct2, THEN conjunct2, THEN conjunct1, rule_format, OF c4]
  note d5 = t[THEN conjunct2, THEN conjunct2, THEN conjunct1, rule_format, OF c5]
  note d6 = t[THEN conjunct2, THEN conjunct2, THEN conjunct2, THEN conjunct1, rule_format, OF p6]
  show ?thesis
    by (intro conjI r a n b d4 d5 d6 l)
qed

text \<open>
  Claim C2 as stated does not hold. A vertex-stage and a fragment-stage compile failure
  return the same \<^verbatim>\<open>NULL\<close> and write the same "shader info:" line: the stage is
  not named. A driver log of 600 characters is logged with its first 511 only. And after
  a fragment-stage failure the shader object created for that stage has not been deleted.
\<close>

theorem failed_attempt_counterexample:
  "fst (gl_shader_create vertex_fails rgba_requirements empty_renderer) = None
   \<and> fst (gl_shader_create fragment_fails rgba_requirements empty_renderer) = None
   \<and> hd (log_since empty_renderer
          (snd (gl_shader_create vertex_fails rgba_requirements empty_renderer))) =
       ''shader info: ERROR: 0:1: syntax error\<newline>''
   \<and> hd (log_since empty_renderer
          (snd (gl_shader_create fragment_fails rgba_requirements empty_renderer))) =
       ''shader info: ERROR: 0:1: syntax error\<newline>''
   \<and> shader_info_log long_log_fails GL_VERTEX_SHADER [vertex_shader_glsl long_log_fails] =
       replicate 600 (CHR ''x'')
   \<and> hd (log_since empty_renderer
          (snd (gl_shader_create long_log_fails rgba_requirements empty_renderer))) =
       ''shader info: '' @ replicate 511 (CHR ''x'') @ ''\<newline>''
   \<and> GlCreateShader GL_FRAGMENT_SHADER 2 \<in>
       set (gl_calls (snd (gl_shader_create fragment_fails rgba_requirements empty_renderer)))
   \<and> GlDeleteShader 2 \<notin>
       set (gl_calls (snd (gl_shader_create fragment_fails rgba_requirements empty_renderer)))
   \<and> gl_shaders (snd (gl_shader_create fragment_fails rgba_requirements empty_renderer)) = [2]"
proof -
  have "shader_info_log long_log_fails GL_VERTEX_SHADER [vertex_shader_glsl long_log_fails] =
      replicate 600 (CHR ''x'')"
    by (simp add: long_log_fails_def)
  moreover have "hd (log_since empty_renderer
      (snd (gl_shader_create long_log_fails rgba_requirements empty_renderer))) =
      ''shader info: '' @ replicate 511 (CHR ''x'') @ ''\<newline>''"
    by (simp add: long_log_fails_eval)
  ultimately show ?thesis
    by (simp add: vertex_fails_eval fragment_fails_eval log_since_def empty_renderer_simps)
qed

text \<open>
  Claim C3. \<^verbatim>\<open>create_shader_description_string\<close> (the spec's \<open>describe\<close>) gives, for
  every requirements value, the text "<variant-name> <+/-green>"; for RGBA without
  tint that is "SHADER_VARIANT_RGBA -green"; two requirements values have the same
  description only if they are equal, so the 18 values have 18 descriptions. The function
  of the model has no state, so equal arguments give equal texts. The only way the C
  function does not return the text is \<^verbatim>\<open>asprintf\<close> failing to allocate it, which
  the hypothesis excludes.
\<close>

theorem describe_total_injective:
  assumes "\<And>s. asprintf_ok ex s"
  shows "create_shader_description_string ex r =
           Some (gl_shader_texture_variant_to_string (variant r) @
                 (if green_tint r then '' +green'' else '' -green''))
       \<and> create_shader_description_string ex \<lparr>variant = SHADER_VARIANT_RGBA, green_tint = False\<rparr> =
           Some ''SHADER_VARIANT_RGBA -green''
       \<and> (create_shader_description_string ex r = create_shader_description_string ex r')
           = (r = r')
       \<and> card (range (create_shader_description_string ex)) = 18"
proof -
  have eq: "create_shader_description_string ex q =
      Some (gl_shader_texture_variant_to_string (variant q) @ '' '' @
            [if green_tint q then CHR ''+'' else CHR ''-''] @ ''green'')" for q
    using assms by (simp add: create_shader_description_string_def asprintf_def)
  have inj: "q = q'"
    if "create_shader_description_string ex q = create_shader_description_string ex q'"
    for q q'
  proof -
    from that have "variant q = variant q' \<and>
        (if green_tint q then CHR ''+'' else CHR ''-'') =
        (if green_tint q' then CHR ''+'' else CHR ''-'')"
      unfolding eq by (intro description_text_inj) simp
    then show ?thesis
      by (simp add: requirements_eq_iff split: if_splits)
  qed
  have "inj (create_shader_description_string ex)"
    by (rule injI) (rule inj)
  then have "card (range (create_shader_description_string ex)) = 18"
    by (simp add: card_image card_requirements)
  moreover have "(create_shader_description_string ex r = create_shader_description_string ex r')
      = (r = r')"
    using inj by blast
  ultimately show ?thesis
    by (simp add: eq)
qed

theorem describe_total_injective_witness:
  "create_shader_description_string mock_externals solid_requirements =
     Some ''SHADER_VARIANT_SOLID +green''
   \<and> create_shader_description_string mock_externals rgba_requirements =
     Some ''SHADER_VARIANT_RGBA -green''
   \<and> create_shader_description_string mock_externals solid_requirements \<noteq>
     create_shader_description_string mock_externals rgba_requirements
   \<and> card (range (create_shader_description_string mock_externals)) = 18"
proof -
  have ok: "asprintf_ok mock_externals s" for s
    by (simp add: mock_externals_def)
  show ?thesis
    using describe_total_injective[of mock_externals solid_requirements rgba_requirements, OF ok]
      describe_total_injective[of mock_externals rgba_requirements rgba_requirements, OF ok]
    by (simp add: solid_requirements_def rgba_requirements_def)
qed



text \<open>
  Claim C5. \<^verbatim>\<open>gl_shader_requirements_cmp\<close> returns zero for two requirements values
  exactly when they agree on the variant and on the tint flag. The function compares the
  bytes of the two objects with \<^verbatim>\<open>memcmp\<close>, so this holds for a layout in which the
  bytes are given by the two members and nothing else (\<open>layout_exact\<close>).
\<close>

theorem cmp_zero_iff_fields_agree:
  assumes "layout_exact layout"
  shows "(gl_shader_requirements_cmp layout a b = 0) =
           (variant a = variant b \<and> green_tint a = green_tint b)"
proof -
  have "(gl_shader_requirements_cmp layout a b = 0) =
          (\<forall>i < sizeof_requirements layout. object_bytes layout a i = object_bytes layout b i)"
    by (simp add: gl_shader_requirements_cmp_def memcmp_def memcmp_from_zero_iff)
  also have "\<dots> = (a = b)"
    using assms unfolding layout_exact_def by blast
  finally show ?thesis by (simp add: requirements_eq_iff)
qed

theorem cmp_zero_iff_fields_agree_witness:
  "layout_exact packed_layout
   \<and> gl_shader_requirements_cmp packed_layout rgba_requirements rgba_requirements = 0
   \<and> gl_shader_requirements_cmp packed_layout rgba_requirements solid_requirements \<noteq> 0
   \<and> gl_shader_requirements_cmp packed_layout rgba_requirements (rgba_requirements\<lparr>green_tint := True\<rparr>) \<noteq> 0"
  using cmp_zero_iff_fields_agree[OF packed_layout_exact, of rgba_requirements rgba_requirements]
    cmp_zero_iff_fields_agree[OF packed_layout_exact, of rgba_requirements solid_requirements]
    cmp_zero_iff_fields_agree[OF packed_layout_exact, of rgba_requirements "rgba_requirements\<lparr>green_tint := True\<rparr>"]
    packed_layout_exact
  by (simp add: rgba_requirements_def solid_requirements_def)

text \<open>
  Claim C6. \<open>destroy_all\<close> on a cache of N entries returns; the GL calls it makes are
  exactly N \<^verbatim>\<open>glDeleteProgram\<close> calls, one for the program of each entry, in list
  order; the shader list is empty afterwards; and a dump made then has no records and
  ends with "Total: 0 programs.".
\<close>

theorem destroy_all_deletes_each_program:
  "\<exists>gr'. destroy_all ex gr = Some gr'
      \<and> shader_list gr' = []
      \<and> calls_since gr gr' =
          map (\<lambda>(p, shader). GlDeleteProgram (program shader)) (shader_list gr)
      \<and> length (calls_since gr gr') = length (shader_list gr)
      \<and> fst (gl_shader_scope_new_subscription ex' gr') =
          [''Vertex shader body:\<newline>'' @ bar @ ''\<newline>'' @ vertex_shader_glsl ex' @ ''\<newline>'' @
           ''Fragment shader body:\<newline>'' @ bar @ ''\<newline>'' @ fragment_shader_glsl ex' @
           ''\<newline>'' @ bar @ ''\<newline>'',
           ''Cached GLSL programs:\<newline>    id: (used secs ago) description +/-flags\<newline>'',
           ''Total: 0 programs.\<newline>'']"
proof -
  from destroy_all_result[of ex gr]
  obtain gr' where r: "destroy_all ex gr = Some gr'"
    and l: "shader_list gr' = []"
    and c: "gl_calls gr' =
      gl_calls gr @ map (\<lambda>(p, shader). GlDeleteProgram (program shader)) (shader_list gr)"
    by blast
  have "calls_since gr gr' =
      map (\<lambda>(p, shader). GlDeleteProgram (program shader)) (shader_list gr)"
    using c by simp
  with r show ?thesis
    using l dump_empty[OF l, of ex'] by simp
qed

theorem destroy_all_deletes_each_program_witness:
  "\<exists>gr'. destroy_all mock_externals two_cached = Some gr'
      \<and> shader_list gr' = []
      \<and> calls_since two_cached gr' = [GlDeleteProgram 6, GlDeleteProgram 3]
      \<and> last (fst (gl_shader_scope_new_subscription mock_externals gr')) =
          ''Total: 0 programs.\<newline>''"
proof -
  from destroy_all_deletes_each_program[of mock_externals two_cached mock_externals]
  obtain gr' where "destroy_all mock_externals two_cached = Some gr'"
    and "shader_list gr' = []"
    and "calls_since two_cached gr' =
      map (\<lambda>(p, shader). GlDeleteProgram (program shader)) (shader_list two_cached)"
    and "fst (gl_shader_scope_new_subscription mock_externals gr') =
      [''Vertex shader body:\<newline>'' @ bar @ ''\<newline>'' @ vertex_shader_glsl mock_externals @ ''\<newline>'' @
       ''Fragment shader body:\<newline>'' @ bar @ ''\<newline>'' @ fragment_shader_glsl mock_externals @
       ''\<newline>'' @ bar @ ''\<newline>'',
       ''Cached GLSL programs:\<newline>    id: (used secs ago) description +/-flags\<newline>'',
       ''Total: 0 programs.\<newline>'']"
    by blast
  then show ?thesis
    by (simp add: two_cached_list created_shader_def)
qed

text \<open>
  Claim C7 fails on the code for an entry last used 2^31 milliseconds (24.8 days) or more
  before the dump: \<^verbatim>\<open>int msecs\<close> keeps 32 bits of the difference, so the number in the
  record is not the time since \<^verbatim>\<open>last_used\<close>. Here the helper returns the true
  difference in milliseconds and the entry is as \<open>gl_shader_create\<close> left it
  (\<^verbatim>\<open>last_used\<close> zero). Dumped when the clock reads 4294977.296 s, the difference is
  4294977296 ms; dumped when it reads 10 s, it is 10000 ms; the two reports are the
  same text, whatever the floating-point conversion prints, and the record says 10.0
  with the conversion of \<open>mock_externals\<close>. A difference of 2^31 ms is stored as a
  negative number.
\<close>

theorem dump_elapsed_wraps:
  "timespec_sub_to_msec mock_externals late_clock
       (last_used (created_shader mock_externals rgba_requirements 0)) = 4294977296
   \<and> timespec_sub_to_msec mock_externals (presentation_clock mock_externals)
       (last_used (created_shader mock_externals rgba_requirements 0)) = 10000
   \<and> (\<forall>f. fst (gl_shader_scope_new_subscription
              (mock_externals\<lparr>presentation_clock := late_clock, printf_f1 := f\<rparr>) rgba_cached) =
            fst (gl_shader_scope_new_subscription
              (mock_externals\<lparr>printf_f1 := f\<rparr>) rgba_cached))
   \<and> fst (gl_shader_scope_new_subscription
          (mock_externals\<lparr>presentation_clock := late_clock\<rparr>) rgba_cached) ! 2 =
       ''     3: (10.0) SHADER_VARIANT_RGBA -green\<newline>''
   \<and> int64_to_int 2147483648 = - 2147483648"
proof -
  have c: "fst (gl_shader_scope_new_subscription
        (mock_externals\<lparr>presentation_clock := late_clock, printf_f1 := f\<rparr>) rgba_cached) =
      fst (gl_shader_scope_new_subscription (mock_externals\<lparr>printf_f1 := f\<rparr>) rgba_cached)" for f
    by (simp add: dump_eq rgba_cached_list late_dump_line)
  have d: "fst (gl_shader_scope_new_subscription
        (mock_externals\<lparr>presentation_clock := late_clock\<rparr>) rgba_cached) ! 2 =
      ''     3: (10.0) SHADER_VARIANT_RGBA -green\<newline>''"
    by (simp add: dump_eq rgba_cached_list late_dump_text)
  have e: "int64_to_int 2147483648 = - 2147483648"
    by (simp add: int64_to_int_def)
  show ?thesis
    by (intro conjI allI late_msecs mock_msecs c d e)
qed

text \<open>
  Claim C8. The dump changes nothing: the state after it, with the shader list and every
  member of every entry, is the state before it.
\<close>

theorem dump_observational:
  "snd (gl_shader_scope_new_subscription ex gr) = gr"
  by (simp add: gl_shader_scope_new_subscription_def Let_def split: prod.splits)

theorem dump_observational_witness:
  "snd (gl_shader_scope_new_subscription mock_externals rgba_cached) = rgba_cached
   \<and> shader_list (snd (gl_shader_scope_new_subscription mock_externals rgba_cached)) =
       [(4096, created_shader mock_externals rgba_requirements 0)]"
  using dump_observational[of mock_externals rgba_cached]
  by (simp add: rgba_cached_list)

text \<open>
  Claim C9, as amended. An entry leaves the shader list only through
  \<open>gl_shader_destroy\<close>, which unlinks exactly the one entry it is given, or through
  \<open>destroy_all\<close>, which applies it to every entry: after any sequence of the other
  operations (\<open>gl_shader_create\<close>, the dump and the modelled \<open>get_or_create\<close>) the
  list ends with the list it started from, so every entry that was present is still
  present, at its address and with its members.
\<close>

theorem entries_leave_only_by_destroy:
  "(shader_run ops gr = Some gr' \<and> (\<forall>op \<in> set ops. \<not> unlinks (snd op)) \<longrightarrow>
      (\<exists>new. shader_list gr' = new @ shader_list gr))
   \<and> (gl_shader_destroy ex p gr = Some gr1 \<longrightarrow>
      (\<exists>before shader after.
         shader_list gr = before @ (p, shader) # after \<and> shader_list gr1 = before @ after))
   \<and> (\<exists>new. shader_list (snd (gl_shader_create ex requirements gr)) = new @ shader_list gr)
   \<and> shader_list (snd (gl_shader_scope_new_subscription ex gr)) = shader_list gr
   \<and> (\<exists>new. shader_list (snd (get_or_create ex requirements gr)) = new @ shader_list gr)"
  using shader_run_keeps[of ops gr gr'] gl_shader_destroy_one[of ex p gr gr1]
    create_keeps[of ex requirements gr] get_or_create_keeps[of ex requirements gr]
  by (simp add: dump_keeps_state)

theorem entries_leave_only_by_destroy_witness:
  "shader_run [(mock_externals, Op_dump),
               (mock_externals\<lparr>zalloc := Some 8192\<rparr>, Op_gl_shader_create solid_requirements),
               (vertex_fails, Op_get_or_create rgba_requirements),
               (link_fails, Op_gl_shader_create rgba_requirements)] rgba_cached \<noteq> None
   \<and> (\<exists>gr' new. shader_run [(mock_externals, Op_dump),
               (mock_externals\<lparr>zalloc := Some 8192\<rparr>, Op_gl_shader_create solid_requirements),
               (vertex_fails, Op_get_or_create rgba_requirements),
               (link_fails, Op_gl_shader_create rgba_requirements)] rgba_cached = Some gr'
         \<and> shader_list gr' = new @ [(4096, created_shader mock_externals rgba_requirements 0)])
   \<and> (\<exists>gr1 before shader after. gl_shader_destroy mock_externals 8192 two_cached = Some gr1
         \<and> shader_list two_cached = before @ (8192, shader) # after
         \<and> shader_list gr1 = before @ after)"
proof -
  let ?ops = "[(mock_externals, Op_dump),
      (mock_externals\<lparr>zalloc := Some 8192\<rparr>, Op_gl_shader_create solid_requirements),
      (vertex_fails, Op_get_or_create rgba_requirements),
      (link_fails, Op_gl_shader_create rgba_requirements)]"
  obtain gr' where run: "shader_run ?ops rgba_cached = Some gr'"
    by simp
  have "\<forall>op \<in> set ?ops. \<not> unlinks (snd op)"
    by simp
  with run entries_leave_only_by_destroy[of ?ops rgba_cached gr']
  have "\<exists>new. shader_list gr' = new @ shader_list rgba_cached"
    by blast
  then have a: "\<exists>gr' new. shader_run ?ops rgba_cached = Some gr'
      \<and> shader_list gr' = new @ [(4096, created_shader mock_externals rgba_requirements 0)]"
    using run by (auto simp: rgba_cached_list)
  from destroy_solid obtain gr1 where d: "gl_shader_destroy mock_externals 8192 two_cached = Some gr1"
    by auto
  with entries_leave_only_by_destroy[of "[]" two_cached two_cached mock_externals 8192 gr1]
  have b: "\<exists>gr1 before shader after. gl_shader_destroy mock_externals 8192 two_cached = Some gr1
      \<and> shader_list two_cached = before @ (8192, shader) # after
      \<and> shader_list gr1 = before @ after"
    by blast
  from run a b show ?thesis
    by simp
qed

text \<open>
  Claim C9 as stated does not hold. \<open>gl_shader_destroy\<close>, a function the source
  exports, is not \<open>destroy_all\<close> and removes a single entry: called for the first of
  two cached entries it leaves the second one cached.
\<close>

theorem single_entry_removal_counterexample:
  "map fst (shader_list two_cached) = [8192, 4096]
   \<and> map_option (\<lambda>gr. map fst (shader_list gr)) (gl_shader_destroy mock_externals 8192 two_cached) =
       Some [4096]
   \<and> map_option (\<lambda>gr. shader_list gr) (destroy_all mock_externals two_cached) = Some []"
proof -
  have "map_option (\<lambda>gr. map fst (shader_list gr)) (gl_shader_destroy mock_externals 8192 two_cached) =
      map_option (map fst) (map_option shader_list (gl_shader_destroy mock_externals 8192 two_cached))"
    by (simp add: option.map_comp comp_def)
  moreover from destroy_all_result[of mock_externals two_cached]
  have "map_option (\<lambda>gr. shader_list gr) (destroy_all mock_externals two_cached) = Some []"
    by auto
  ultimately show ?thesis
    by (simp add: destroy_solid two_cached_list)
qed

text \<open>
  Claim C10. On every way out of \<^verbatim>\<open>gl_shader_create\<close>, each stage shader object
  that was successfully created during the call (returned by \<open>compile_shader\<close>:
  \<open>compiled_in\<close>) is deleted by exactly one \<^verbatim>\<open>glDeleteShader\<close> call of that call.
  On success the two deletions come directly after the link and its status query, the
  shader objects alive afterwards are those alive before, the one new program object is
  the entry's, and the entry's \<^verbatim>\<open>vertex_shader\<close> and \<^verbatim>\<open>fragment_shader\<close> members
  name the two deleted objects. (An object whose compilation fails is not returned by
  \<open>compile_shader\<close> and is not covered: \<open>compile_shader\<close> does not delete it.)
\<close>

theorem stage_shaders_deleted_once:
  assumes "gl_shader_create ex requirements gr = (result, gr')"
  shows "(\<forall>s. compiled_in (calls_since gr gr') s \<longrightarrow>
            count_list (calls_since gr gr') (GlDeleteShader s) = 1)
       \<and> (\<forall>p. result = Some p \<longrightarrow>
            (\<exists>shader before after.
               shader_list gr' = (p, shader) # shader_list gr
             \<and> compiled_in (calls_since gr gr') (vertex_shader shader)
             \<and> compiled_in (calls_since gr gr') (fragment_shader shader)
             \<and> calls_since gr gr' =
                 before @ [GlLinkProgram (program shader), GlGetProgramiv (program shader),
                           GlDeleteShader (vertex_shader shader),
                           GlDeleteShader (fragment_shader shader)] @ after
             \<and> gl_shaders gr' = gl_shaders gr
             \<and> gl_programs gr' = program shader # gl_programs gr
             \<and> ((\<forall>s \<in> set (gl_shaders gr). s \<le> gl_names gr) \<longrightarrow>
                  vertex_shader shader \<notin> set (gl_shaders gr') \<and>
                  fragment_shader shader \<notin> set (gl_shaders gr'))))"
proof (intro conjI allI impI)
  fix s
  assume "compiled_in (calls_since gr gr') s"
  then show "count_list (calls_since gr gr') (GlDeleteShader s) = 1"
    using compiled_deleted_once[of gr ex requirements s] assms by simp
next
  fix p
  assume "result = Some p"
  with assms have c: "gl_shader_create ex requirements gr = (Some p, gr')"
    by simp
  from c obtain conf where h: "zalloc ex = Some p"
      "compile_status ex GL_VERTEX_SHADER [vertex_shader_glsl ex]"
      "create_shader_config_string ex requirements = Some conf"
      "compile_status ex GL_FRAGMENT_SHADER (fragment_sources ex conf)"
      "link_status ex"
    by (rule created_iff)
  let ?n = "gl_names gr"
  let ?shader = "created_shader ex requirements ?n"
  let ?before = "vertex_calls ex ?n @ fragment_calls ex conf ?n @
      [GlCreateProgram (Suc (Suc (Suc ?n))),
       GlAttachShader (Suc (Suc (Suc ?n))) (Suc ?n),
       GlAttachShader (Suc (Suc (Suc ?n))) (Suc (Suc ?n)),
       GlBindAttribLocation (Suc (Suc (Suc ?n))) 0 ''position'',
       GlBindAttribLocation (Suc (Suc (Suc ?n))) 1 ''texcoord'']"
  from c have gr': "gr' = snd (gl_shader_create ex requirements gr)"
    by simp
  have 1: "shader_list gr' = (p, ?shader) # shader_list gr"
    by (simp add: gr' create_created[OF h])
  have calls: "calls_since gr gr' = vertex_calls ex ?n @ fragment_calls ex conf ?n @
      program_calls ?n @ [GlDeleteShader (Suc ?n), GlDeleteShader (Suc (Suc ?n))] @
      uniform_calls ?n"
    by (simp add: gr' create_created[OF h])
  have 2: "compiled_in (calls_since gr gr') (vertex_shader ?shader)"
    by (auto simp: calls compiled_in_def created_shader_def vertex_calls_def fragment_calls_def
        program_calls_def uniform_calls_def)
  have 3: "compiled_in (calls_since gr gr') (fragment_shader ?shader)"
    by (auto simp: calls compiled_in_def created_shader_def vertex_calls_def fragment_calls_def
        program_calls_def uniform_calls_def)
  have 4: "calls_since gr gr' =
      ?before @ [GlLinkProgram (program ?shader), GlGetProgramiv (program ?shader),
                 GlDeleteShader (vertex_shader ?shader),
                 GlDeleteShader (fragment_shader ?shader)] @ uniform_calls ?n"
    by (simp add: calls created_shader_def program_calls_def)
  have 5: "gl_shaders gr' = gl_shaders gr"
    by (simp add: gr' create_created[OF h])
  have 6: "gl_programs gr' = program ?shader # gl_programs gr"
    by (simp add: gr' create_created[OF h] created_shader_def)
  have 7: "(\<forall>s \<in> set (gl_shaders gr). s \<le> gl_names gr) \<longrightarrow>
      vertex_shader ?shader \<notin> set (gl_shaders gr') \<and> fragment_shader ?shader \<notin> set (gl_shaders gr')"
    by (auto simp: 5 created_shader_def)
  from 1 2 3 4 5 6 7
  show "\<exists>shader before after.
      shader_list gr' = (p, shader) # shader_list gr
    \<and> compiled_in (calls_since gr gr') (vertex_shader shader)
    \<and> compiled_in (calls_since gr gr') (fragment_shader shader)
    \<and> calls_since gr gr' =
        before @ [GlLinkProgram (program shader), GlGetProgramiv (program shader),
                  GlDeleteShader (vertex_shader shader),
                  GlDeleteShader (fragment_shader shader)] @ after
    \<and> gl_shaders gr' = gl_shaders gr
    \<and> gl_programs gr' = program shader # gl_programs gr
    \<and> ((\<forall>s \<in> set (gl_shaders gr). s \<le> gl_names gr) \<longrightarrow>
         vertex_shader shader \<notin> set (gl_shaders gr') \<and>
         fragment_shader shader \<notin> set (gl_shaders gr'))"
    by blast
qed

theorem stage_shaders_deleted_once_witness:
  "fst (gl_shader_create mock_externals rgba_requirements empty_renderer) = Some 4096
   \<and> compiled_in (calls_since empty_renderer
        (snd (gl_shader_create mock_externals rgba_requirements empty_renderer))) 1
   \<and> count_list (calls_since empty_renderer
        (snd (gl_shader_create mock_externals rgba_requirements empty_renderer))) (GlDeleteShader 1) = 1
   \<and> compiled_in (calls_since empty_renderer
        (snd (gl_shader_create mock_externals rgba_requirements empty_renderer))) 2
   \<and> count_list (calls_since empty_renderer
        (snd (gl_shader_create mock_externals rgba_requirements empty_renderer))) (GlDeleteShader 2) = 1
   \<and> fst (gl_shader_create fragment_fails rgba_requirements empty_renderer) = None
   \<and> compiled_in (calls_since empty_renderer
        (snd (gl_shader_create fragment_fails rgba_requirements empty_renderer))) 1
   \<and> count_list (calls_since empty_renderer
        (snd (gl_shader_create fragment_fails rgba_requirements empty_renderer))) (GlDeleteShader 1) = 1"
proof -
  let ?gr' = "snd (gl_shader_create mock_externals rgba_requirements empty_renderer)"
  let ?gr'' = "snd (gl_shader_create fragment_fails rgba_requirements empty_renderer)"
  have c1: "compiled_in (calls_since empty_renderer ?gr') 1"
    by (simp add: mock_created compiled_in_def empty_renderer_def vertex_calls_def
        fragment_calls_def program_calls_def uniform_calls_def)
  have c2: "compiled_in (calls_since empty_renderer ?gr') 2"
    by (simp add: mock_created compiled_in_def empty_renderer_def vertex_calls_def
        fragment_calls_def program_calls_def uniform_calls_def)
  have r: "fst (gl_shader_create mock_externals rgba_requirements empty_renderer) = Some 4096"
    by (simp add: mock_created)
  have "gl_shader_create mock_externals rgba_requirements empty_renderer =
      (fst (gl_shader_create mock_externals rgba_requirements empty_renderer), ?gr')"
    by simp
  note t = stage_shaders_deleted_once[OF this, THEN conjunct1, rule_format]
  have h: "zalloc fragment_fails = Some 4096"
    "compile_status fragment_fails GL_VERTEX_SHADER [vertex_shader_glsl fragment_fails]"
    "create_shader_config_string fragment_fails rgba_requirements =
      Some ''#define DEF_GREEN_TINT false\<newline>#define DEF_VARIANT SHADER_VARIANT_RGBA\<newline>''"
    "\<not> compile_status fragment_fails GL_FRAGMENT_SHADER (fragment_sources fragment_fails
      ''#define DEF_GREEN_TINT false\<newline>#define DEF_VARIANT SHADER_VARIANT_RGBA\<newline>'')"
    by (simp_all add: fragment_fails_def mock_externals_def create_shader_config_string_def
        asprintf_def rgba_requirements_def)
  have r': "fst (gl_shader_create fragment_fails rgba_requirements empty_renderer) = None"
    by (simp add: create_fragment_failed[OF h])
  have c1': "compiled_in (calls_since empty_renderer ?gr'') 1"
    by (simp add: create_fragment_failed[OF h] compiled_in_def empty_renderer_def
        vertex_calls_def fragment_calls_def)
  have "gl_shader_create fragment_fails rgba_requirements empty_renderer =
      (fst (gl_shader_create fragment_fails rgba_requirements empty_renderer), ?gr'')"
    by simp
  note t' = stage_shaders_deleted_once[OF this, THEN conjunct1, rule_format]
  show ?thesis
    by (intro conjI r c1 c2 t[OF c1] t[OF c2] r' c1' t'[OF c1'])
qed

section \<open>More facts about the source\<close>

text \<open>
  Property X1. When the compile status of a shader is false, \<open>compile_shader\<close> returns
  \<^verbatim>\<open>GL_NONE\<close> and makes no \<^verbatim>\<open>glDeleteShader\<close> call: the object it created is
  still alive when it returns. \<open>gl_shader_create\<close> does not delete it either: after a
  failed fragment stage the fragment shader object stays.
\<close>

theorem failed_compile_object_stays:
  "(\<not> compile_status ex type sources \<longrightarrow>
      fst (compile_shader ex type sources gr) = GL_NONE
      \<and> gl_shaders (snd (compile_shader ex type sources gr)) = Suc (gl_names gr) # gl_shaders gr
      \<and> GlDeleteShader (Suc (gl_names gr)) \<notin>
          set (calls_since gr (snd (compile_shader ex type sources gr))))
   \<and> (zalloc ex \<noteq> None
      \<and> compile_status ex GL_VERTEX_SHADER [vertex_shader_glsl ex]
      \<and> create_shader_config_string ex requirements = Some conf
      \<and> \<not> compile_status ex GL_FRAGMENT_SHADER (fragment_sources ex conf) \<longrightarrow>
      fst (gl_shader_create ex requirements gr) = None
      \<and> gl_shaders (snd (gl_shader_create ex requirements gr)) =
          Suc (Suc (gl_names gr)) # gl_shaders gr
      \<and> GlDeleteShader (Suc (Suc (gl_names gr))) \<notin>
          set (calls_since gr (snd (gl_shader_create ex requirements gr))))"
proof (intro conjI impI)
  assume f: "\<not> compile_status ex type sources"
  show "fst (compile_shader ex type sources gr) = GL_NONE"
    by (simp add: compile_shader_failed[OF f])
  show "gl_shaders (snd (compile_shader ex type sources gr)) = Suc (gl_names gr) # gl_shaders gr"
    by (simp add: compile_shader_failed[OF f])
  show "GlDeleteShader (Suc (gl_names gr)) \<notin>
      set (calls_since gr (snd (compile_shader ex type sources gr)))"
    by (simp add: compile_shader_failed[OF f])
next
  assume a: "zalloc ex \<noteq> None
      \<and> compile_status ex GL_VERTEX_SHADER [vertex_shader_glsl ex]
      \<and> create_shader_config_string ex requirements = Some conf
      \<and> \<not> compile_status ex GL_FRAGMENT_SHADER (fragment_sources ex conf)"
  then obtain p where h: "zalloc ex = Some p"
      "compile_status ex GL_VERTEX_SHADER [vertex_shader_glsl ex]"
      "create_shader_config_string ex requirements = Some conf"
      "\<not> compile_status ex GL_FRAGMENT_SHADER (fragment_sources ex conf)"
    by auto
  show "fst (gl_shader_create ex requirements gr) = None"
    by (simp add: create_fragment_failed[OF h])
  show "gl_shaders (snd (gl_shader_create ex requirements gr)) =
      Suc (Suc (gl_names gr)) # gl_shaders gr"
    by (simp add: create_fragment_failed[OF h])
  show "GlDeleteShader (Suc (Suc (gl_names gr))) \<notin>
      set (calls_since gr (snd (gl_shader_create ex requirements gr)))"
    by (simp add: create_fragment_failed[OF h] vertex_calls_def fragment_calls_def)
qed

theorem failed_compile_object_stays_witness:
  "fst (gl_shader_create fragment_fails rgba_requirements empty_renderer) = None
   \<and> gl_shaders (snd (gl_shader_create fragment_fails rgba_requirements empty_renderer)) = [2]
   \<and> gl_shaders empty_renderer = []"
proof -
  have "zalloc fragment_fails \<noteq> None
      \<and> compile_status fragment_fails GL_VERTEX_SHADER [vertex_shader_glsl fragment_fails]
      \<and> create_shader_config_string fragment_fails rgba_requirements =
          Some ''#define DEF_GREEN_TINT false\<newline>#define DEF_VARIANT SHADER_VARIANT_RGBA\<newline>''
      \<and> \<not> compile_status fragment_fails GL_FRAGMENT_SHADER (fragment_sources fragment_fails
          ''#define DEF_GREEN_TINT false\<newline>#define DEF_VARIANT SHADER_VARIANT_RGBA\<newline>'')"
    by (simp add: fragment_fails_def mock_externals_def create_shader_config_string_def
        asprintf_def rgba_requirements_def)
  with failed_compile_object_stays[of fragment_fails GL_FRAGMENT_SHADER "[]" empty_renderer
      rgba_requirements
      "''#define DEF_GREEN_TINT false\<newline>#define DEF_VARIANT SHADER_VARIANT_RGBA\<newline>''"]
  have "fst (gl_shader_create fragment_fails rgba_requirements empty_renderer) = None
      \<and> gl_shaders (snd (gl_shader_create fragment_fails rgba_requirements empty_renderer)) =
          Suc (Suc (gl_names empty_renderer)) # gl_shaders empty_renderer"
    by blast
  then show ?thesis
    by (simp add: empty_renderer_simps)
qed

text \<open>
  Property X2. \<open>gl_shader_create\<close> does not look the key up: whenever it succeeds, the
  new entry is put in front of the list, also when the list already has an entry with
  that key. Called twice for the same requirements it leaves two entries with one key.
\<close>

theorem create_inserts_without_lookup:
  "fst (gl_shader_create ex requirements gr) \<noteq> None \<longrightarrow>
     cached_keys (snd (gl_shader_create ex requirements gr)) = requirements # cached_keys gr"
proof
  assume "fst (gl_shader_create ex requirements gr) \<noteq> None"
  then obtain p where "gl_shader_create ex requirements gr =
      (Some p, snd (gl_shader_create ex requirements gr))"
    by (metis not_None_eq prod.collapse)
  then obtain conf where h: "zalloc ex = Some p"
      "compile_status ex GL_VERTEX_SHADER [vertex_shader_glsl ex]"
      "create_shader_config_string ex requirements = Some conf"
      "compile_status ex GL_FRAGMENT_SHADER (fragment_sources ex conf)"
      "link_status ex"
    by (rule created_iff)
  show "cached_keys (snd (gl_shader_create ex requirements gr)) = requirements # cached_keys gr"
    by (simp add: create_created[OF h] cached_keys_def created_shader_def)
qed

theorem create_inserts_without_lookup_witness:
  "cached_keys rgba_cached = [rgba_requirements]
   \<and> cached_keys (snd (gl_shader_create mock_externals rgba_requirements rgba_cached)) =
       [rgba_requirements, rgba_requirements]"
proof -
  have k: "cached_keys rgba_cached = [rgba_requirements]"
    by (simp add: cached_keys_def rgba_cached_list created_shader_def)
  have "fst (gl_shader_create mock_externals rgba_requirements rgba_cached) \<noteq> None"
    by (simp add: mock_created)
  with create_inserts_without_lookup[of mock_externals rgba_requirements rgba_cached] k
  show ?thesis
    by simp
qed

text \<open>
  Property X3. The dump is: one text with the vertex and the fragment shader bodies between
  bars; a heading; one record for each element of the shader list, in list order, made
  of the program name in a field of six, the text \<^verbatim>\<open>%.1f\<close> gives for the
  milliseconds between the clock read at the start of the dump and the entry's
  \<^verbatim>\<open>last_used\<close> divided by 1000.0, and the description of the entry's key; and a
  last line with the number of entries. The milliseconds pass through an \<^verbatim>\<open>int\<close>,
  which keeps every value of 32 bits.
\<close>

theorem dump_report:
  "fst (gl_shader_scope_new_subscription ex gr) =
     [''Vertex shader body:\<newline>'' @ bar @ ''\<newline>'' @ vertex_shader_glsl ex @ ''\<newline>'' @
      ''Fragment shader body:\<newline>'' @ bar @ ''\<newline>'' @ fragment_shader_glsl ex @
      ''\<newline>'' @ bar @ ''\<newline>'',
      ''Cached GLSL programs:\<newline>    id: (used secs ago) description +/-flags\<newline>''] @
     map (\<lambda>(p, shader).
            printf_6u (program shader) @ '': ('' @
            printf_f1 ex (int64_to_int
              (timespec_sub_to_msec ex (presentation_clock ex) (last_used shader))) @
            '') '' @ printf_s (create_shader_description_string ex (key shader)) @ ''\<newline>'')
         (shader_list gr) @
     [''Total: '' @ printf_d (int (length (shader_list gr))) @ '' programs.\<newline>'']
   \<and> (- 2147483648 \<le> t \<and> t < 2147483648 \<longrightarrow> int64_to_int t = t)"
  by (simp add: gl_shader_scope_new_subscription_def dump_shaders_eq dump_line_def
      int64_to_int_id Let_def)

theorem dump_report_witness:
  "fst (gl_shader_scope_new_subscription mock_externals rgba_cached) =
     [''Vertex shader body:\<newline>'' @ bar @ ''\<newline>void main() { }\<newline>\<newline>'' @
      ''Fragment shader body:\<newline>'' @ bar @
      ''\<newline>void main() { gl_FragColor = vec4(1.0); }\<newline>\<newline>'' @ bar @ ''\<newline>'',
      ''Cached GLSL programs:\<newline>    id: (used secs ago) description +/-flags\<newline>'',
      ''     3: (10.0) SHADER_VARIANT_RGBA -green\<newline>'',
      ''Total: 1 programs.\<newline>'']
   \<and> int64_to_int 10000 = 10000"
proof -
  have "- 2147483648 \<le> (10000::int) \<and> (10000::int) < 2147483648"
    by simp
  with dump_report[of mock_externals rgba_cached 10000]
  have a: "int64_to_int 10000 = 10000"
    and b: "fst (gl_shader_scope_new_subscription mock_externals rgba_cached) =
     [''Vertex shader body:\<newline>'' @ bar @ ''\<newline>'' @ vertex_shader_glsl mock_externals @ ''\<newline>'' @
      ''Fragment shader body:\<newline>'' @ bar @ ''\<newline>'' @ fragment_shader_glsl mock_externals @
      ''\<newline>'' @ bar @ ''\<newline>'',
      ''Cached GLSL programs:\<newline>    id: (used secs ago) description +/-flags\<newline>''] @
     map (\<lambda>(p, shader).
            printf_6u (program shader) @ '': ('' @
            printf_f1 mock_externals (int64_to_int
              (timespec_sub_to_msec mock_externals (presentation_clock mock_externals) (last_used shader))) @
            '') '' @ printf_s (create_shader_description_string mock_externals (key shader)) @ ''\<newline>'')
         (shader_list rgba_cached) @
     [''Total: '' @ printf_d (int (length (shader_list rgba_cached))) @ '' programs.\<newline>'']"
    by blast+
  have "replicate 5 (CHR '' '') = ''     ''"
    by (simp add: eval_nat_numeral)
  then have "printf_6u 3 = ''     3''"
    by (simp add: printf_6u_def width6_def decimal.simps)
  then have c: "printf_6u (Suc (Suc (Suc 0))) = ''     3''"
    by (simp add: numeral_3_eq_3)
  have d: "printf_d 10 = ''10''" "printf_d 0 = ''0''" "printf_d 1 = ''1''"
    by (simp_all add: printf_d_def decimal.simps)
  show ?thesis
    unfolding b rgba_cached_list
    by (simp add: a c d created_shader_def mock_externals_def rgba_requirements_def
        create_shader_description_string_def asprintf_def printf_s_def)
qed

end
